theory Spec2Isabelle
  imports Complex_Main "HOL-Library.Multiset" "HOL-Library.Sublist"
begin

section \<open>The persisted relations\<close>

text \<open>
  The application keeps all of its state in the relations of a hosted relational
  backend. A relation is a list of rows; ids are strings, as in the TypeScript
  interfaces. Columns that no handler modelled here reads or writes (the options
  of a question, descriptions, \<open>created_by\<close>, \<open>created_at\<close>, the subject of an
  exam) are left out. Timestamps are milliseconds since the epoch (what
  \<open>Date.getTime\<close> reads). JavaScript numbers are IEEE doubles. Marks, scores and
  totals are integers (integer columns, far below 2 ^ 53, where doubles are
  exact), so they are modelled as integers; a percentage is the real value of
  the double that the division and the multiplication of the client produce,
  each rounded to the nearest double.
\<close>

record profile =
  p_id :: string
  p_full_name :: string
  p_email :: string
  p_role :: string

record exam_row =
  ex_id :: string
  ex_title :: string
  ex_duration_minutes :: int
  ex_total_marks :: int
  ex_passing_marks :: int
  ex_is_active :: bool

record question =
  q_id :: string
  q_exam_id :: string
  q_question_text :: string
  q_correct_answer :: string
  q_marks :: int
  q_order_number :: int

record exam_attempt =
  att_id :: string
  att_exam_id :: string
  att_student_id :: string
  att_status :: string
  att_started_at :: int
  att_completed_at :: "int option"
  att_score :: "int option"
  att_percentage :: "real option"
  att_total_marks :: int

record student_answer =
  sa_attempt_id :: string
  sa_question_id :: string
  sa_selected_answer :: string
  sa_is_correct :: "bool option"

record db =
  profiles :: "profile list"
  exams :: "exam_row list"
  questions_tbl :: "question list"
  exam_attempts :: "exam_attempt list"
  student_answers :: "student_answer list"

text \<open>
  The backend answers every call from the store as it is at that moment. The
  errors it gives are the ones the store determines: PGRST116 of \<open>.single()\<close>
  and the refusal of a row by a row-level policy; \<open>TypeError\<close> is the exception
  of reading a field of null in the client. Failures of the transport are not
  part of the model.
\<close>

datatype error = PGRST116 | RlsViolation | TypeError

datatype effect = ToastError string | ToastSuccess string | Navigate string | ConsoleError string

text \<open>
  The client's \<open>.single()\<close>: the row when the query selects exactly one, the error
  PGRST116 (with no data) when it selects none or several.
\<close>

fun single :: "'a list \<Rightarrow> error + 'a" where
  "single [x] = Inr x"
| "single _ = Inl PGRST116"

section \<open>Role resolver and the policies on profiles (the SQL migration)\<close>

text \<open>
  \<open>SELECT role FROM public.profiles WHERE id = auth.uid()\<close>: the role of the first
  row with that id, NULL (None) when there is none.
\<close>

definition get_current_user_role :: "db \<Rightarrow> string \<Rightarrow> string option" where
  "get_current_user_role d uid = map_option p_role (find (\<lambda>p. p_id p = uid) (profiles d))"

text \<open>
  The two permissive policies on profiles, both \<open>FOR ALL\<close> with a \<open>USING\<close> clause
  only: "Admin can manage all profiles" and "Users can manage own profile".
  Permissive policies are combined with OR.
\<close>

definition admin_can_manage_all_profiles :: "db \<Rightarrow> string \<Rightarrow> profile \<Rightarrow> bool" where
  "admin_can_manage_all_profiles d uid row = (get_current_user_role d uid = Some ''admin'')"

definition users_can_manage_own_profile :: "db \<Rightarrow> string \<Rightarrow> profile \<Rightarrow> bool" where
  "users_can_manage_own_profile d uid row = (uid = p_id row)"

definition profiles_policy :: "db \<Rightarrow> string \<Rightarrow> profile \<Rightarrow> bool" where
  "profiles_policy d uid row =
     (admin_can_manage_all_profiles d uid row \<or> users_can_manage_own_profile d uid row)"

text \<open>
  An UPDATE on profiles issued by identity \<open>uid\<close>. Row-level security lets the
  statement see only the rows that pass \<open>USING\<close>; a policy without \<open>WITH CHECK\<close>
  applies its \<open>USING\<close> expression to the new row as well, and a new row that
  fails it aborts the whole statement. The role function is \<open>STABLE\<close>: it reads
  the table as it was when the statement started.
\<close>

definition update_profiles ::
  "string \<Rightarrow> db \<Rightarrow> (profile \<Rightarrow> bool) \<Rightarrow> (profile \<Rightarrow> profile) \<Rightarrow> error + db" where
  "update_profiles uid d sel f =
     (let hit = (\<lambda>r. sel r \<and> profiles_policy d uid r) in
      if list_ex (\<lambda>r. hit r \<and> \<not> profiles_policy d uid (f r)) (profiles d)
      then Inl RlsViolation
      else Inr (d\<lparr>profiles := map (\<lambda>r. if hit r then f r else r) (profiles d)\<rparr>))"

text \<open>\<open>toggleUserRole\<close> of the admin panel: one UPDATE of the role column.\<close>

definition toggleUserRole :: "string \<Rightarrow> db \<Rightarrow> string \<Rightarrow> string \<Rightarrow> (db \<times> effect list)" where
  "toggleUserRole uid d userId currentRole =
     (let newRole = (if currentRole = ''admin'' then ''student'' else ''admin'') in
      case update_profiles uid d (\<lambda>r. p_id r = userId) (\<lambda>r. r\<lparr>p_role := newRole\<rparr>) of
        Inl e \<Rightarrow> (d, [ConsoleError ''Error updating user role:'',
                       ToastError ''Failed to update user role''])
      | Inr d' \<Rightarrow> (d', [ToastSuccess (''User role updated to '' @ newRole)]))"

section \<open>Student access to attempts and answers\<close>

text \<open>
  Modelled from the spec: the row-level policies that let a student work on
  attempts and answers are created by a migration that is not among the source
  files (the migration at hand only adds the admin policies). The spec states
  them: a student may create, read and update only the attempts whose
  \<open>student_id\<close> is the student's own identity.
\<close>

definition exam_attempts_policy :: "db \<Rightarrow> string \<Rightarrow> exam_attempt \<Rightarrow> bool" where
  "exam_attempts_policy d uid row = (att_student_id row = uid)"

text \<open>
  Modelled from the spec: a student may create, read and update only the answers
  whose parent attempt belongs to the student (the policy itself is not among
  the source files).
\<close>

definition student_answers_policy :: "db \<Rightarrow> string \<Rightarrow> student_answer \<Rightarrow> bool" where
  "student_answers_policy d uid row =
     list_ex (\<lambda>a. att_id a = sa_attempt_id row \<and> att_student_id a = uid) (exam_attempts d)"

text \<open>
  Modelled from the spec: the policy under which a student reads exams is not
  among the source files. By the spec no policy restricts the reading to active
  exams (the client filters on \<open>is_active\<close> where it wants the active ones), so
  the lookup of an exam by its id sees every exam row.
\<close>

definition select_exam :: "db \<Rightarrow> string \<Rightarrow> error + exam_row" where
  "select_exam d examId = single (filter (\<lambda>e. ex_id e = examId) (exams d))"

text \<open>
  INSERT into \<open>exam_attempts\<close>. The payload of the client gives \<open>exam_id\<close>,
  \<open>student_id\<close>, \<open>total_marks\<close> and \<open>status\<close>; the id and \<open>started_at\<close> are
  column defaults, taken here as the arguments \<open>new_id\<close> and \<open>now\<close>.
\<close>

definition insert_attempt ::
  "string \<Rightarrow> int \<Rightarrow> string \<Rightarrow> db \<Rightarrow> string \<Rightarrow> string \<Rightarrow> int \<Rightarrow> string \<Rightarrow> error + (db \<times> exam_attempt)" where
  "insert_attempt uid now new_id d examId studentId totalMarks status =
     (let row = \<lparr> att_id = new_id, att_exam_id = examId, att_student_id = studentId,
                  att_status = status, att_started_at = now, att_completed_at = None,
                  att_score = None, att_percentage = None, att_total_marks = totalMarks \<rparr>
      in if exam_attempts_policy d uid row
         then Inr (d\<lparr>exam_attempts := exam_attempts d @ [row]\<rparr>, row)
         else Inl RlsViolation)"

text \<open>The lookup both Start paths make: the student's \<open>in_progress\<close> attempt at the exam.\<close>

definition select_in_progress :: "string \<Rightarrow> db \<Rightarrow> string \<Rightarrow> string \<Rightarrow> error + exam_attempt" where
  "select_in_progress uid d examId studentId =
     single (filter (\<lambda>a. exam_attempts_policy d uid a \<and> att_exam_id a = examId \<and>
                         att_student_id a = studentId \<and> att_status a = ''in_progress'')
                    (exam_attempts d))"

text \<open>
  Modelled from the spec: what the backend accepts as an Answer is decided by
  code that is not among the source files (the handler of the client only sends
  the upsert). The spec gives the rule of the attempt's state machine: an
  answer is allowed only while the status of the attempt is \<open>in_progress\<close>, and
  only for an attempt of the student's own.
\<close>

definition answer_allowed :: "db \<Rightarrow> string \<Rightarrow> string \<Rightarrow> bool" where
  "answer_allowed d uid attemptId =
     list_ex (\<lambda>a. att_id a = attemptId \<and> att_student_id a = uid \<and> att_status a = ''in_progress'')
             (exam_attempts d)"

text \<open>
  Modelled from the spec: the conflict key of the upsert is a constraint of the
  table, whose declaration is not among the source files; the spec gives it as
  (attempt_id, question_id). An upsert that is not allowed is refused and
  leaves the store as it is. Otherwise an existing row with the key gets the
  new selection, or a row is added. The correctness flag is not part of the
  payload of the client, so an existing flag stays and a new row has none.
\<close>

definition upsert_answer :: "string \<Rightarrow> db \<Rightarrow> string \<Rightarrow> string \<Rightarrow> string \<Rightarrow> error + db" where
  "upsert_answer uid d attemptId questionId answer =
     (let row = \<lparr> sa_attempt_id = attemptId, sa_question_id = questionId,
                  sa_selected_answer = answer, sa_is_correct = None \<rparr>;
          same = (\<lambda>r. sa_attempt_id r = attemptId \<and> sa_question_id r = questionId)
      in if \<not> student_answers_policy d uid row \<or> \<not> answer_allowed d uid attemptId
         then Inl RlsViolation
         else if list_ex same (student_answers d)
         then Inr (d\<lparr>student_answers :=
                       map (\<lambda>r. if same r then r\<lparr>sa_selected_answer := answer\<rparr> else r)
                           (student_answers d)\<rparr>)
         else Inr (d\<lparr>student_answers := student_answers d @ [row]\<rparr>))"

section \<open>The exam page\<close>

record exam_page =
  pg_exam :: "exam_row option"
  pg_questions :: "question list"
  pg_currentAttempt :: "exam_attempt option"
  pg_answers :: "string \<rightharpoonup> string"
  pg_timeRemaining :: int
  pg_loading :: bool
  pg_isSubmitting :: bool

text \<open>The state of a freshly mounted page (the arguments of the \<open>useState\<close> calls).\<close>

definition initial_page :: exam_page where
  "initial_page = \<lparr> pg_exam = None, pg_questions = [], pg_currentAttempt = None,
                     pg_answers = Map.empty, pg_timeRemaining = 0, pg_loading = True,
                     pg_isSubmitting = False \<rparr>"

text \<open>The questions of an exam in ascending \<open>order_number\<close>.\<close>

definition select_questions :: "db \<Rightarrow> string \<Rightarrow> question list" where
  "select_questions d examId =
     sort_key q_order_number (filter (\<lambda>q. q_exam_id q = examId) (questions_tbl d))"

text \<open>
  The resume branch of \<open>fetchExamData\<close>: remaining minutes are the duration less
  the whole minutes elapsed since \<open>started_at\<close>, not below zero; the timer is
  kept in seconds.
\<close>

definition remaining_minutes :: "int \<Rightarrow> int \<Rightarrow> int \<Rightarrow> int" where
  "remaining_minutes duration_minutes startTime now =
     (let elapsedMinutes = (now - startTime) div (1000 * 60)
      in max 0 (duration_minutes - elapsedMinutes))"

definition resume_attempt :: "string \<Rightarrow> int \<Rightarrow> db \<Rightarrow> exam_row \<Rightarrow> exam_attempt \<Rightarrow> exam_page \<Rightarrow> exam_page" where
  "resume_attempt uid now d examData attemptData pg =
     (let answersData = filter (\<lambda>r. student_answers_policy d uid r \<and>
                                     sa_attempt_id r = att_id attemptData) (student_answers d);
          existingAnswers = fold (\<lambda>r m. m(sa_question_id r \<mapsto> sa_selected_answer r))
                                 answersData Map.empty
      in pg\<lparr> pg_currentAttempt := Some attemptData,
              pg_timeRemaining :=
                remaining_minutes (ex_duration_minutes examData) (att_started_at attemptData) now * 60,
              pg_answers := existingAnswers \<rparr>)"

definition fetchExamData ::
  "string \<Rightarrow> string \<Rightarrow> int \<Rightarrow> string \<Rightarrow> db \<Rightarrow> exam_page \<Rightarrow> db \<times> exam_page \<times> effect list" where
  "fetchExamData uid examId now new_id d pg =
     (let failed = (\<lambda>pg'. (d, pg'\<lparr>pg_loading := False\<rparr>,
                      [ConsoleError ''Error fetching exam data:'',
                       ToastError ''Failed to load exam'', Navigate ''/dashboard'']));
          loaded = (\<lambda>d' pg'. (d', pg'\<lparr>pg_questions := select_questions d' examId,
                                       pg_loading := False\<rparr>, []))
      in case select_exam d examId of
           Inl e \<Rightarrow> failed pg
         | Inr examData \<Rightarrow>
             if \<not> ex_is_active examData
             then (d, pg\<lparr>pg_loading := False\<rparr>,
                   [ToastError ''This exam is not currently active'', Navigate ''/dashboard''])
             else
               (let pg1 = pg\<lparr>pg_exam := Some examData\<rparr> in
                case select_in_progress uid d examId uid of
                  Inr attemptData \<Rightarrow> loaded d (resume_attempt uid now d examData attemptData pg1)
                | Inl attemptError \<Rightarrow>
                    if attemptError \<noteq> PGRST116 then failed pg1
                    else
                      (case insert_attempt uid now new_id d examId uid
                              (ex_total_marks examData) ''in_progress'' of
                         Inl newAttemptError \<Rightarrow> failed pg1
                       | Inr (d', newAttempt) \<Rightarrow>
                           loaded d' (pg1\<lparr> pg_currentAttempt := Some newAttempt,
                                           pg_timeRemaining := ex_duration_minutes examData * 60 \<rparr>))))"

definition handleAnswerSelect ::
  "string \<Rightarrow> string \<Rightarrow> string \<Rightarrow> db \<Rightarrow> exam_page \<Rightarrow> db \<times> exam_page \<times> effect list" where
  "handleAnswerSelect uid questionId answer d pg =
     (let pg' = pg\<lparr>pg_answers := (pg_answers pg)(questionId \<mapsto> answer)\<rparr>;
          failed = (d, pg', [ConsoleError ''Error saving answer:'', ToastError ''Failed to save answer''])
      in case pg_currentAttempt pg of
           None \<Rightarrow> failed
         | Some a \<Rightarrow>
             (case upsert_answer uid d (att_id a) questionId answer of
                Inl e \<Rightarrow> failed
              | Inr d' \<Rightarrow> (d', pg', [])))"

subsection \<open>Submission and scoring\<close>

text \<open>
  The query of \<open>handleSubmitExam\<close>: the answers of the attempt, each with the
  \<open>correct_answer\<close> and \<open>marks\<close> of its question embedded (null when the question
  row is not there).
\<close>

record question_key =
  qk_correct_answer :: string
  qk_marks :: int

record joined_answer =
  ja_question_id :: string
  ja_selected_answer :: string
  ja_questions :: "question_key option"

definition select_answers_with_questions :: "string \<Rightarrow> db \<Rightarrow> string \<Rightarrow> joined_answer list" where
  "select_answers_with_questions uid d attemptId =
     map (\<lambda>r. \<lparr> ja_question_id = sa_question_id r,
                 ja_selected_answer = sa_selected_answer r,
                 ja_questions =
                   map_option (\<lambda>q. \<lparr> qk_correct_answer = q_correct_answer q, qk_marks = q_marks q \<rparr>)
                              (find (\<lambda>q. q_id q = sa_question_id r) (questions_tbl d)) \<rparr>)
         (filter (\<lambda>r. student_answers_policy d uid r \<and> sa_attempt_id r = attemptId)
                 (student_answers d))"

text \<open>The update of one answer's correctness flag, sent for every answer and not awaited.\<close>

definition mark_answer :: "string \<Rightarrow> db \<Rightarrow> string \<Rightarrow> string \<Rightarrow> bool \<Rightarrow> db" where
  "mark_answer uid d attemptId questionId isCorrect =
     d\<lparr>student_answers :=
          map (\<lambda>r. if student_answers_policy d uid r \<and> sa_attempt_id r = attemptId \<and>
                       sa_question_id r = questionId
                    then r\<lparr>sa_is_correct := Some isCorrect\<rparr> else r)
              (student_answers d)\<rparr>"

text \<open>
  The \<open>forEach\<close> loop over the answers. The accumulator is the score, the count
  of correct answers and the store. Reading \<open>correct_answer\<close> of a null question
  throws, which ends the loop with the updates sent so far.
\<close>

fun score_loop ::
  "string \<Rightarrow> string \<Rightarrow> joined_answer list \<Rightarrow> int \<times> int \<times> db \<Rightarrow> (error \<times> db) + (int \<times> int \<times> db)" where
  "score_loop uid attemptId [] acc = Inr acc"
| "score_loop uid attemptId (answer # rest) (score, correctAnswers, d) =
     (case ja_questions answer of
        None \<Rightarrow> Inl (TypeError, d)
      | Some q \<Rightarrow>
          (let isCorrect = (ja_selected_answer answer = qk_correct_answer q);
               score' = (if isCorrect then score + qk_marks q else score);
               correctAnswers' = (if isCorrect then correctAnswers + 1 else correctAnswers);
               d' = mark_answer uid d attemptId (ja_question_id answer) isCorrect
           in score_loop uid attemptId rest (score', correctAnswers', d')))"

text \<open>
  Arithmetic on doubles. A double has 53 significant bits: a real \<open>x\<close> other than
  0 lies in exactly one binade, \<open>2 powi e \<le> \<bar>x\<bar> < 2 powi (e + 1)\<close> with
  \<open>e = \<lfloor>log 2 \<bar>x\<bar>\<rfloor>\<close>, where the doubles are the multiples of
  \<open>2 powi (e - 52)\<close>. An operation gives the double nearest to the exact result,
  the one with the even last bit when two are equally near. Overflow and
  subnormal numbers do not occur for quotients of integers below 2 ^ 53 and
  are left out.
\<close>

definition round_half_even :: "real \<Rightarrow> int" where
  "round_half_even x =
     (let f = \<lfloor>x\<rfloor>; r = x - of_int f
      in if r < 1 / 2 then f else if 1 / 2 < r then f + 1 else if even f then f else f + 1)"

definition to_double :: "real \<Rightarrow> real" where
  "to_double x =
     (if x = 0 then 0
      else (let ulp = 2 powi (\<lfloor>log 2 \<bar>x\<bar>\<rfloor> - 52)
            in of_int (round_half_even (x / ulp)) * ulp))"

definition double_div :: "real \<Rightarrow> real \<Rightarrow> real" where
  "double_div x y = to_double (x / y)"

definition double_mul :: "real \<Rightarrow> real \<Rightarrow> real" where
  "double_mul x y = to_double (x * y)"

text \<open>
  \<open>exam?.total_marks ? (score / exam.total_marks) * 100 : 0\<close>: zero when the page
  holds no exam or its total is 0; otherwise the quotient, as a double, times
  100, as a double.
\<close>

definition percentage_of :: "exam_row option \<Rightarrow> int \<Rightarrow> real" where
  "percentage_of exam score =
     (case exam of
        None \<Rightarrow> 0
      | Some e \<Rightarrow> if ex_total_marks e \<noteq> 0
                  then double_mul (double_div (real_of_int score) (real_of_int (ex_total_marks e))) 100
                  else 0)"

text \<open>The final UPDATE of the attempt row: status, score, percentage, completion time.\<close>

definition complete_attempt :: "string \<Rightarrow> int \<Rightarrow> db \<Rightarrow> string \<Rightarrow> int \<Rightarrow> real \<Rightarrow> db" where
  "complete_attempt uid now d attemptId score percentage =
     d\<lparr>exam_attempts :=
          map (\<lambda>a. if exam_attempts_policy d uid a \<and> att_id a = attemptId
                    then a\<lparr> att_status := ''completed'', att_score := Some score,
                            att_percentage := Some percentage, att_completed_at := Some now \<rparr>
                    else a)
              (exam_attempts d)\<rparr>"

text \<open>
  \<open>handleSubmitExam\<close>. A page without a current attempt sends the query with an
  undefined attempt id, which the backend refuses; that is the failure branch.
\<close>

definition handleSubmitExam :: "string \<Rightarrow> int \<Rightarrow> db \<Rightarrow> exam_page \<Rightarrow> db \<times> exam_page \<times> effect list" where
  "handleSubmitExam uid now d pg =
     (if pg_isSubmitting pg then (d, pg, [])
      else
        (let failed = (\<lambda>d'. (d', pg\<lparr>pg_isSubmitting := False\<rparr>,
                         [ConsoleError ''Error submitting exam:'', ToastError ''Failed to submit exam'']))
         in case pg_currentAttempt pg of
              None \<Rightarrow> failed d
            | Some a \<Rightarrow>
                (case score_loop uid (att_id a)
                        (select_answers_with_questions uid d (att_id a)) (0, 0, d) of
                   Inl (e, d') \<Rightarrow> failed d'
                 | Inr (score, correctAnswers, d') \<Rightarrow>
                     (complete_attempt uid now d' (att_id a) score (percentage_of (pg_exam pg) score),
                      pg\<lparr>pg_isSubmitting := True\<rparr>,
                      [ToastSuccess ''Exam submitted successfully!'', Navigate ''/dashboard'']))))"

text \<open>
  The timer effect, run when \<open>timeRemaining\<close> or \<open>currentAttempt\<close> has changed:
  one tick of the countdown (after a second), or the automatic submission at
  zero.
\<close>

definition timer_effect :: "string \<Rightarrow> int \<Rightarrow> db \<Rightarrow> exam_page \<Rightarrow> db \<times> exam_page \<times> effect list" where
  "timer_effect uid now d pg =
     (if pg_timeRemaining pg > 0 then (d, pg\<lparr>pg_timeRemaining := pg_timeRemaining pg - 1\<rparr>, [])
      else if pg_timeRemaining pg = 0 \<and> pg_currentAttempt pg \<noteq> None
      then handleSubmitExam uid now d pg
      else (d, pg, []))"

section \<open>The dashboard\<close>

text \<open>
  \<open>startExam\<close>: the error of the lookup is not read, only its data; without a
  row the exam's \<open>total_marks\<close> is fetched and a new attempt inserted.
\<close>

definition startExam :: "string \<Rightarrow> string \<Rightarrow> int \<Rightarrow> string \<Rightarrow> db \<Rightarrow> db \<times> effect list" where
  "startExam uid examId now new_id d =
     (let failed = (d, [ConsoleError ''Error starting exam:'', ToastError ''Failed to start exam''])
      in case select_in_progress uid d examId uid of
           Inr activeAttempt \<Rightarrow> (d, [Navigate (''/exam/'' @ examId)])
         | Inl _ \<Rightarrow>
             (case select_exam d examId of
                Inl examError \<Rightarrow> failed
              | Inr examData \<Rightarrow>
                  (case insert_attempt uid now new_id d examId uid
                          (ex_total_marks examData) ''in_progress'' of
                     Inl error \<Rightarrow> failed
                   | Inr (d', newAttempt) \<Rightarrow> (d', [Navigate (''/exam/'' @ examId)]))))"

section \<open>The question manager of the admin panel\<close>

text \<open>
  The migration gives questions and exams one policy each, \<open>FOR ALL\<close> and for
  admins only. Writes are checked against it; reads of exams and questions are
  left open here, since students read both through policies of their own.
  Answers that refer to a deleted question are outside this part of the model.
\<close>

definition admins_can_manage_questions :: "db \<Rightarrow> string \<Rightarrow> bool" where
  "admins_can_manage_questions d uid = (get_current_user_role d uid = Some ''admin'')"

definition admins_can_manage_exams :: "db \<Rightarrow> string \<Rightarrow> bool" where
  "admins_can_manage_exams d uid = (get_current_user_role d uid = Some ''admin'')"

record question_form =
  qf_question_text :: string
  qf_correct_answer :: string
  qf_marks :: int
  qf_order_number :: int

record question_manager =
  qm_questions :: "question list"
  qm_loading :: bool
  qm_isDialogOpen :: bool
  qm_editingQuestion :: "question option"
  qm_questionForm :: question_form

definition fetchQuestions :: "string \<Rightarrow> db \<Rightarrow> question_manager \<Rightarrow> question_manager" where
  "fetchQuestions examId d qm = qm\<lparr>qm_questions := select_questions d examId, qm_loading := False\<rparr>"

definition updateExamTotalMarks :: "string \<Rightarrow> string \<Rightarrow> db \<Rightarrow> question_manager \<Rightarrow> db" where
  "updateExamTotalMarks uid examId d qm =
     (let totalMarks = fold (\<lambda>q sum. sum + q_marks q) (qm_questions qm) 0
      in d\<lparr>exams := map (\<lambda>e. if admins_can_manage_exams d uid \<and> ex_id e = examId
                               then e\<lparr>ex_total_marks := totalMarks\<rparr> else e)
                         (exams d)\<rparr>)"

text \<open>The effect on \<open>questions\<close>: the total is written only for a non-empty list.\<close>

definition questions_effect :: "string \<Rightarrow> string \<Rightarrow> db \<Rightarrow> question_manager \<Rightarrow> db" where
  "questions_effect uid examId d qm =
     (if length (qm_questions qm) > 0 then updateExamTotalMarks uid examId d qm else d)"

text \<open>
  A call of \<open>fetchQuestions\<close> replaces the \<open>questions\<close> state, and the render that
  follows runs the effect on it.
\<close>

definition refetch :: "string \<Rightarrow> string \<Rightarrow> db \<Rightarrow> question_manager \<Rightarrow> db \<times> question_manager" where
  "refetch uid examId d qm =
     (let qm' = fetchQuestions examId d qm in (questions_effect uid examId d qm', qm'))"

definition resetForm :: "question_manager \<Rightarrow> question_manager \<Rightarrow> question_manager" where
  "resetForm closure qm =
     qm\<lparr> qm_questionForm := \<lparr> qf_question_text = [], qf_correct_answer = [], qf_marks = 1,
                               qf_order_number = int (length (qm_questions closure)) + 1 \<rparr>,
         qm_editingQuestion := None \<rparr>"

definition insert_question :: "string \<Rightarrow> string \<Rightarrow> db \<Rightarrow> string \<Rightarrow> question_form \<Rightarrow> error + db" where
  "insert_question uid new_id d examId form =
     (if admins_can_manage_questions d uid
      then Inr (d\<lparr>questions_tbl := questions_tbl d @
                   [\<lparr> q_id = new_id, q_exam_id = examId, q_question_text = qf_question_text form,
                      q_correct_answer = qf_correct_answer form, q_marks = qf_marks form,
                      q_order_number = qf_order_number form \<rparr>]\<rparr>)
      else Inl RlsViolation)"

definition update_question :: "string \<Rightarrow> db \<Rightarrow> string \<Rightarrow> question_form \<Rightarrow> db" where
  "update_question uid d questionId form =
     d\<lparr>questions_tbl :=
          map (\<lambda>q. if admins_can_manage_questions d uid \<and> q_id q = questionId
                    then q\<lparr> q_question_text := qf_question_text form,
                            q_correct_answer := qf_correct_answer form,
                            q_marks := qf_marks form, q_order_number := qf_order_number form \<rparr>
                    else q)
              (questions_tbl d)\<rparr>"

definition delete_question :: "string \<Rightarrow> db \<Rightarrow> string \<Rightarrow> db" where
  "delete_question uid d questionId =
     d\<lparr>questions_tbl :=
          filter (\<lambda>q. \<not> (admins_can_manage_questions d uid \<and> q_id q = questionId))
                 (questions_tbl d)\<rparr>"

text \<open>\<open>handleSubmit\<close> of the question dialog: update when a question is being edited, insert otherwise.\<close>

definition handleSubmit ::
  "string \<Rightarrow> string \<Rightarrow> string \<Rightarrow> db \<Rightarrow> question_manager \<Rightarrow> db \<times> question_manager \<times> effect list" where
  "handleSubmit uid examId new_id d qm =
     (if qf_correct_answer (qm_questionForm qm) = []
      then (d, qm, [ToastError ''Please select the correct answer''])
      else
        (let saved = (\<lambda>d1 msg.
                 (let (d2, qm2) = refetch uid examId d1 qm
                  in (d2, resetForm qm (qm2\<lparr>qm_isDialogOpen := False\<rparr>), [ToastSuccess msg])))
         in case qm_editingQuestion qm of
              Some editingQuestion \<Rightarrow>
                saved (update_question uid d (q_id editingQuestion) (qm_questionForm qm))
                      ''Question updated successfully''
            | None \<Rightarrow>
                (case insert_question uid new_id d examId (qm_questionForm qm) of
                   Inl e \<Rightarrow> (d, qm, [ConsoleError ''Error saving question:'',
                                      ToastError ''Failed to save question''])
                 | Inr d1 \<Rightarrow> saved d1 ''Question created successfully'')))"

text \<open>\<open>handleDelete\<close>; \<open>confirmed\<close> is the answer to the confirmation dialog.\<close>

definition handleDelete ::
  "string \<Rightarrow> string \<Rightarrow> bool \<Rightarrow> string \<Rightarrow> db \<Rightarrow> question_manager \<Rightarrow> db \<times> question_manager \<times> effect list" where
  "handleDelete uid examId confirmed questionId d qm =
     (if \<not> confirmed then (d, qm, [])
      else
        (let (d2, qm2) = refetch uid examId (delete_question uid d questionId) qm
         in (d2, qm2, [ToastSuccess ''Question deleted successfully''])))"

section \<open>The sign-in and sign-up forms\<close>

text \<open>
  \<open>toLowerCase\<close> on the letters A to Z; other characters are left as they are.
  \<open>endsWith\<close> compares the last characters of the string with the suffix.
\<close>

definition toLowerCase_char :: "char \<Rightarrow> char" where
  "toLowerCase_char c =
     (case map_of (zip ''ABCDEFGHIJKLMNOPQRSTUVWXYZ'' ''abcdefghijklmnopqrstuvwxyz'') c of
        Some l \<Rightarrow> l
      | None \<Rightarrow> c)"

definition toLowerCase :: "string \<Rightarrow> string" where
  "toLowerCase s = map toLowerCase_char s"

definition endsWith :: "string \<Rightarrow> string \<Rightarrow> bool" where
  "endsWith s suf = (length suf \<le> length s \<and> drop (length s - length suf) s = suf)"

definition isNeuEmail :: "string \<Rightarrow> bool" where
  "isNeuEmail email = endsWith (toLowerCase email) ''@neu.edu.ph''"

record sign_in_data =
  si_email :: string
  si_password :: string
  si_role :: string

record sign_up_data =
  su_email :: string
  su_password :: string
  su_fullName :: string
  su_confirmPassword :: string
  su_role :: string

text \<open>
  The calls the forms make to the identity provider. What the provider answers
  (an error message or none) is an argument of the handlers.
\<close>

datatype auth_call = SignIn string string | SignUp string string string string

definition handleSignIn :: "sign_in_data \<Rightarrow> string option \<Rightarrow> auth_call list \<times> effect list" where
  "handleSignIn signInData answer =
     (if si_email signInData = [] \<or> si_password signInData = [] \<or> si_role signInData = []
      then ([], [ToastError ''Please fill in all fields''])
      else if si_role signInData = ''admin'' \<and> \<not> isNeuEmail (si_email signInData)
      then ([], [ToastError ''Admin accounts require @neu.edu.ph email addresses''])
      else ([SignIn (si_email signInData) (si_password signInData)],
            (case answer of
               Some message \<Rightarrow> [ToastError message]
             | None \<Rightarrow> [ToastSuccess ''Welcome back!'', Navigate ''/''])))"

text \<open>\<open>includes\<close> of the error message: the text occurs somewhere in it.\<close>

fun includes_str :: "string \<Rightarrow> string \<Rightarrow> bool" where
  "includes_str [] sub = (sub = [])"
| "includes_str (c # s) sub = (take (length sub) (c # s) = sub \<or> includes_str s sub)"

definition handleSignUp :: "sign_up_data \<Rightarrow> string option \<Rightarrow> auth_call list \<times> effect list" where
  "handleSignUp signUpData answer =
     (if su_email signUpData = [] \<or> su_password signUpData = [] \<or> su_fullName signUpData = [] \<or>
         su_confirmPassword signUpData = [] \<or> su_role signUpData = []
      then ([], [ToastError ''Please fill in all fields''])
      else if su_role signUpData = ''admin'' \<and> \<not> isNeuEmail (su_email signUpData)
      then ([], [ToastError ''Admin accounts can only be created with @neu.edu.ph email addresses''])
      else if su_password signUpData \<noteq> su_confirmPassword signUpData
      then ([], [ToastError ''Passwords do not match''])
      else if length (su_password signUpData) < 6
      then ([], [ToastError ''Password must be at least 6 characters''])
      else ([SignUp (su_email signUpData) (su_password signUpData) (su_fullName signUpData)
                    (su_role signUpData)],
            (case answer of
               Some message \<Rightarrow>
                 if includes_str message ''already registered''
                 then [ToastError ''This email is already registered. Please sign in instead.'']
                 else [ToastError message]
             | None \<Rightarrow>
                 [ToastSuccess ''Account created successfully! Please check your email for verification.'',
                  Navigate ''/''])))"

section \<open>The scoring rule as the specification words it\<close>

text \<open>
  The score is the sum of the marks of the questions answered correctly; the
  percentage is a hundred times the score over the total, and 0 for a total of 0.
\<close>

definition answer_correct :: "joined_answer \<Rightarrow> bool" where
  "answer_correct a = (case ja_questions a of None \<Rightarrow> False | Some q \<Rightarrow> ja_selected_answer a = qk_correct_answer q)"

definition answer_marks :: "joined_answer \<Rightarrow> int" where
  "answer_marks a = (case ja_questions a of None \<Rightarrow> 0 | Some q \<Rightarrow> qk_marks q)"

definition spec_score :: "joined_answer list \<Rightarrow> int" where
  "spec_score answers = sum_list (map answer_marks (filter answer_correct answers))"

definition spec_percentage :: "int \<Rightarrow> int \<Rightarrow> real" where
  "spec_percentage score total_marks = (if total_marks = 0 then 0 else 100 * real_of_int score / real_of_int total_marks)"

section \<open>Concrete scenarios\<close>

text \<open>
  An exam of 10 marks with a single question worth 10 marks whose correct answer
  is B, and a student with an attempt in progress who has selected one option.
\<close>

definition scenario_exam :: exam_row where
  "scenario_exam = \<lparr> ex_id = ''e1'', ex_title = ''Quiz'', ex_duration_minutes = 30,
                       ex_total_marks = 10, ex_passing_marks = 5, ex_is_active = True \<rparr>"

definition scenario_question :: question where
  "scenario_question = \<lparr> q_id = ''q1'', q_exam_id = ''e1'', q_question_text = ''?'',
                           q_correct_answer = ''B'', q_marks = 10, q_order_number = 1 \<rparr>"

definition scenario_attempt :: exam_attempt where
  "scenario_attempt = \<lparr> att_id = ''a1'', att_exam_id = ''e1'', att_student_id = ''s1'',
                          att_status = ''in_progress'', att_started_at = 0, att_completed_at = None,
                          att_score = None, att_percentage = None, att_total_marks = 10 \<rparr>"

definition scenario_db :: "string \<Rightarrow> db" where
  "scenario_db selected =
     \<lparr> profiles = [\<lparr> p_id = ''s1'', p_full_name = ''Sam'', p_email = ''sam@example.org'',
                      p_role = ''student'' \<rparr>],
       exams = [scenario_exam],
       questions_tbl = [scenario_question],
       exam_attempts = [scenario_attempt],
       student_answers = [\<lparr> sa_attempt_id = ''a1'', sa_question_id = ''q1'',
                             sa_selected_answer = selected, sa_is_correct = None \<rparr>] \<rparr>"

definition scenario_page :: exam_page where
  "scenario_page = initial_page\<lparr> pg_exam := Some scenario_exam, pg_questions := [scenario_question],
                                  pg_currentAttempt := Some scenario_attempt,
                                  pg_timeRemaining := 1800, pg_loading := False \<rparr>"


text \<open>
  The page of a student who reopens the 30-minute exam 40 minutes (2400000 ms)
  after the attempt was started.
\<close>

definition reopened_page :: exam_page where
  "reopened_page = fst (snd (fetchExamData ''s1'' ''e1'' 2400000 ''a2'' (scenario_db ''B'') initial_page))"

text \<open>
  An exam of 20 marks with three questions worth 6, 5 and 9 marks, and an attempt
  in progress whose answers to the first two are right and to the third wrong.
\<close>

definition quiz_exam :: exam_row where
  "quiz_exam = \<lparr> ex_id = ''e2'', ex_title = ''Quiz of three'', ex_duration_minutes = 20,
                   ex_total_marks = 20, ex_passing_marks = 10, ex_is_active = True \<rparr>"

definition quiz_attempt :: exam_attempt where
  "quiz_attempt = \<lparr> att_id = ''a5'', att_exam_id = ''e2'', att_student_id = ''s1'',
                      att_status = ''in_progress'', att_started_at = 0, att_completed_at = None,
                      att_score = None, att_percentage = None, att_total_marks = 20 \<rparr>"

definition quiz_db :: db where
  "quiz_db =
     \<lparr> profiles = [\<lparr> p_id = ''s1'', p_full_name = ''Sam'', p_email = ''sam@example.org'',
                      p_role = ''student'' \<rparr>],
       exams = [quiz_exam],
       questions_tbl =
         [\<lparr> q_id = ''qa'', q_exam_id = ''e2'', q_question_text = ''1?'', q_correct_answer = ''A'',
            q_marks = 6, q_order_number = 1 \<rparr>,
          \<lparr> q_id = ''qb'', q_exam_id = ''e2'', q_question_text = ''2?'', q_correct_answer = ''B'',
            q_marks = 5, q_order_number = 2 \<rparr>,
          \<lparr> q_id = ''qc'', q_exam_id = ''e2'', q_question_text = ''3?'', q_correct_answer = ''C'',
            q_marks = 9, q_order_number = 3 \<rparr>],
       exam_attempts = [quiz_attempt],
       student_answers =
         [\<lparr> sa_attempt_id = ''a5'', sa_question_id = ''qa'', sa_selected_answer = ''A'',
            sa_is_correct = None \<rparr>,
          \<lparr> sa_attempt_id = ''a5'', sa_question_id = ''qb'', sa_selected_answer = ''B'',
            sa_is_correct = None \<rparr>,
          \<lparr> sa_attempt_id = ''a5'', sa_question_id = ''qc'', sa_selected_answer = ''D'',
            sa_is_correct = None \<rparr>] \<rparr>"

definition quiz_page :: exam_page where
  "quiz_page = initial_page\<lparr> pg_exam := Some quiz_exam, pg_currentAttempt := Some quiz_attempt,
                              pg_timeRemaining := 1200, pg_loading := False \<rparr>"

text \<open>The same page when the exam it has loaded carries a total of 0.\<close>

definition unmarked_page :: exam_page where
  "unmarked_page = quiz_page\<lparr>pg_exam := Some (quiz_exam\<lparr>ex_total_marks := 0\<rparr>)\<rparr>"

section \<open>Operations on the store\<close>

text \<open>
  \<open>updateExam\<close> of the admin panel: an UPDATE of the exam with the given id, under
  the admin policy on exams (other rows are not visible to the statement).
\<close>

definition updateExam :: "string \<Rightarrow> db \<Rightarrow> string \<Rightarrow> (exam_row \<Rightarrow> exam_row) \<Rightarrow> db" where
  "updateExam uid d examId updates =
     d\<lparr>exams := map (\<lambda>e. if admins_can_manage_exams d uid \<and> ex_id e = examId then updates e else e)
                     (exams d)\<rparr>"

text \<open>
  Every handler that writes to the store, with its arguments; the page or
  component state a handler runs on is an argument too, so that nothing is
  assumed about what a browser tab holds. \<open>run\<close> gives the store after the
  operation.
\<close>

datatype operation =
    StartExam string string int string
  | FetchExamData string string int string exam_page
  | HandleAnswerSelect string string string exam_page
  | HandleSubmitExam string int exam_page
  | TimerEffect string int exam_page
  | HandleSubmit string string string question_manager
  | HandleDelete string string bool string question_manager
  | UpdateExam string string "exam_row \<Rightarrow> exam_row"
  | ToggleUserRole string string string

fun run :: "operation \<Rightarrow> db \<Rightarrow> db" where
  "run (StartExam uid examId now new_id) d = fst (startExam uid examId now new_id d)"
| "run (FetchExamData uid examId now new_id pg) d = fst (fetchExamData uid examId now new_id d pg)"
| "run (HandleAnswerSelect uid questionId answer pg) d = fst (handleAnswerSelect uid questionId answer d pg)"
| "run (HandleSubmitExam uid now pg) d = fst (handleSubmitExam uid now d pg)"
| "run (TimerEffect uid now pg) d = fst (timer_effect uid now d pg)"
| "run (HandleSubmit uid examId new_id qm) d = fst (handleSubmit uid examId new_id d qm)"
| "run (HandleDelete uid examId confirmed questionId qm) d = fst (handleDelete uid examId confirmed questionId d qm)"
| "run (UpdateExam uid examId updates) d = updateExam uid d examId updates"
| "run (ToggleUserRole uid userId currentRole) d = fst (toggleUserRole uid d userId currentRole)"

text \<open>The number of attempts in progress of a student at an exam.\<close>

definition in_progress_count :: "db \<Rightarrow> string \<Rightarrow> string \<Rightarrow> nat" where
  "in_progress_count d studentId examId =
     length (filter (\<lambda>a. att_student_id a = studentId \<and> att_exam_id a = examId \<and>
                         att_status a = ''in_progress'') (exam_attempts d))"

text \<open>An attempt's identity together with its snapshot of the total.\<close>

definition snapshot :: "exam_attempt \<Rightarrow> string \<times> int" where
  "snapshot a = (att_id a, att_total_marks a)"

section \<open>What an operation does to the attempts\<close>

text \<open>
  An operation leaves the relation of attempts as it is, appends one attempt in
  progress (\<open>created\<close>), or rewrites rows by the update of a submission
  (\<open>completed\<close>).
\<close>

definition created :: "db \<Rightarrow> db \<Rightarrow> bool" where
  "created d d' \<longleftrightarrow>
     (\<exists>row. exam_attempts d' = exam_attempts d @ [row] \<and> att_status row = ''in_progress'' \<and>
            in_progress_count d (att_student_id row) (att_exam_id row) \<noteq> 1 \<and>
            list_ex (\<lambda>e. ex_id e = att_exam_id row \<and> ex_total_marks e = att_total_marks row) (exams d))"

definition completed :: "db \<Rightarrow> db \<Rightarrow> bool" where
  "completed d d' \<longleftrightarrow>
     (\<exists>uid now aid score p. exam_attempts d' = exam_attempts (complete_attempt uid now d aid score p))"

section \<open>Further scenarios\<close>

text \<open>
  A store without attempts, with a student and an admin; the same store with
  the exam deactivated; the store after the student has started the exam; and
  an edit of the exam's total followed by the submission.
\<close>

definition fresh_db :: db where
  "fresh_db =
     \<lparr> profiles = [\<lparr> p_id = ''s1'', p_full_name = ''Sam'', p_email = ''sam@example.org'',
                      p_role = ''student'' \<rparr>,
                   \<lparr> p_id = ''t1'', p_full_name = ''Terry'', p_email = ''terry@neu.edu.ph'',
                      p_role = ''admin'' \<rparr>],
       exams = [scenario_exam],
       questions_tbl = [scenario_question],
       exam_attempts = [],
       student_answers = [] \<rparr>"

definition inactive_db :: db where
  "inactive_db = fresh_db\<lparr>exams := [scenario_exam\<lparr>ex_is_active := False\<rparr>]\<rparr>"

definition started_db :: db where
  "started_db = fresh_db\<lparr>exam_attempts := [scenario_attempt\<lparr>att_started_at := 5\<rparr>]\<rparr>"

definition edited_ops :: "operation list" where
  "edited_ops = [UpdateExam ''t1'' ''e1'' (\<lambda>e. e\<lparr>ex_total_marks := 50\<rparr>),
                 HandleSubmitExam ''s1'' 9 scenario_page]"

text \<open>The store after the student's attempt has been submitted.\<close>

definition submitted_db :: db where
  "submitted_db = fresh_db\<lparr>exam_attempts :=
      [scenario_attempt\<lparr> att_status := ''completed'', att_score := Some 0,
                         att_percentage := Some 0, att_completed_at := Some 9 \<rparr>]\<rparr>"

section \<open>The invariant on an exam's total\<close>

text \<open>
  The questions of an exam, and the invariant of the specification: the total of
  every exam row with the id is the sum of the marks of the exam's questions.
\<close>

definition exam_questions :: "db \<Rightarrow> string \<Rightarrow> question list" where
  "exam_questions d examId = filter (\<lambda>q. q_exam_id q = examId) (questions_tbl d)"

definition total_marks_in_sync :: "db \<Rightarrow> string \<Rightarrow> bool" where
  "total_marks_in_sync d examId =
     list_all (\<lambda>e. ex_id e = examId \<longrightarrow>
                    ex_total_marks e = sum_list (map q_marks (exam_questions d examId)))
              (exams d)"

text \<open>
  The question manager of the admin, opened on the exam, with the dialog filled
  in for a new question worth 5 marks.
\<close>

definition manager :: question_manager where
  "manager = \<lparr> qm_questions = [scenario_question], qm_loading = False, qm_isDialogOpen = False,
                qm_editingQuestion = None,
                qm_questionForm = \<lparr> qf_question_text = ''??'', qf_correct_answer = ''A'',
                                     qf_marks = 5, qf_order_number = 2 \<rparr> \<rparr>"

text \<open>
  Ending with a suffix case-insensitively, as the specification words the check
  on the email: the last characters of the string, as many as the suffix has,
  equal the suffix once both are put in lower case.
\<close>

definition ends_with_ignoring_case :: "string \<Rightarrow> string \<Rightarrow> bool" where
  "ends_with_ignoring_case s suf \<longleftrightarrow>
     (\<exists>pre t. s = pre @ t \<and> length t = length suf \<and> toLowerCase t = toLowerCase suf)"

section \<open>Theorems\<close>

lemma find_distinct_key:
  assumes "distinct (map k xs)" and "x \<in> set xs"
  shows "find (\<lambda>y. k y = k x) xs = Some x"
  using assms
proof (induction xs)
  case Nil
  then show ?case by simp
next
  case (Cons a xs)
  then show ?case by (cases "a = x") (auto simp: image_iff)
qed

subsection \<open>Rounding to doubles\<close>


lemma round_half_even_error: "\<bar>of_int (round_half_even x) - x\<bar> \<le> 1 / 2"
proof -
  have "of_int \<lfloor>x\<rfloor> \<le> x" "x < of_int \<lfloor>x\<rfloor> + 1" by linarith+
  then show ?thesis
    by (auto simp: round_half_even_def Let_def abs_le_iff)
qed

lemma round_half_even_of_int [simp]: "round_half_even (of_int n) = n"
  by (simp add: round_half_even_def)



lemma powr_powi: "(2::real) powr real_of_int k = 2 powi k"
  by (simp add: powr_real_of_int')

lemma powr_powi_Suc: "(2::real) powr (real_of_int k + 1) = 2 powi (k + 1)"
  using powr_powi[of "k + 1"] by simp

lemma binade:
  assumes "x \<noteq> 0"
  shows "2 powi \<lfloor>log 2 \<bar>x\<bar>\<rfloor> \<le> \<bar>x\<bar>" and "\<bar>x\<bar> < 2 powi (\<lfloor>log 2 \<bar>x\<bar>\<rfloor> + 1)"
proof -
  from assms have pos: "0 < \<bar>x\<bar>" by simp
  have "2 powr real_of_int \<lfloor>log 2 \<bar>x\<bar>\<rfloor> \<le> \<bar>x\<bar> \<and> \<bar>x\<bar> < 2 powr (real_of_int \<lfloor>log 2 \<bar>x\<bar>\<rfloor> + 1)"
    using floor_log_eq_powr_iff[OF pos, of 2 "\<lfloor>log 2 \<bar>x\<bar>\<rfloor>"] by simp
  then show "2 powi \<lfloor>log 2 \<bar>x\<bar>\<rfloor> \<le> \<bar>x\<bar>" and "\<bar>x\<bar> < 2 powi (\<lfloor>log 2 \<bar>x\<bar>\<rfloor> + 1)"
    unfolding powr_powi powr_powi_Suc by blast+
qed

lemma binade_unique:
  assumes "0 < x" and "2 powi e \<le> x" and "x < 2 powi (e + 1)"
  shows "\<lfloor>log 2 \<bar>x\<bar>\<rfloor> = e"
proof -
  have "2 powr real_of_int e \<le> x \<and> x < 2 powr (real_of_int e + 1)"
    unfolding powr_powi powr_powi_Suc using assms by blast
  with floor_log_eq_powr_iff[OF assms(1), of 2 e] assms(1) show ?thesis by simp
qed

lemma to_double_eval:
  assumes "0 < x" and "2 powi e \<le> x" and "x < 2 powi (e + 1)"
  shows "to_double x = of_int (round_half_even (x / 2 powi (e - 52))) * 2 powi (e - 52)"
  using assms binade_unique[OF assms] by (simp add: to_double_def Let_def)

lemma to_double_zero [simp]: "to_double 0 = 0"
  by (simp add: to_double_def)

lemma to_double_error: "\<bar>to_double x - x\<bar> \<le> \<bar>x\<bar> / 2 ^ 53"
proof (cases "x = 0")
  case True
  then show ?thesis by simp
next
  case False
  define e where "e = \<lfloor>log 2 \<bar>x\<bar>\<rfloor>"
  define ulp :: real where "ulp = 2 powi (e - 52)"
  have ulp_pos: "0 < ulp" by (simp add: ulp_def)
  have td: "to_double x = of_int (round_half_even (x / ulp)) * ulp"
    using False by (simp add: to_double_def e_def ulp_def Let_def)
  have "\<bar>of_int (round_half_even (x / ulp)) - x / ulp\<bar> \<le> 1 / 2"
    by (rule round_half_even_error)
  then have "\<bar>of_int (round_half_even (x / ulp)) - x / ulp\<bar> * ulp \<le> (1 / 2) * ulp"
    using ulp_pos by (simp add: mult_right_mono)
  moreover have "\<bar>of_int (round_half_even (x / ulp)) - x / ulp\<bar> * ulp = \<bar>to_double x - x\<bar>"
  proof -
    have "\<bar>of_int (round_half_even (x / ulp)) - x / ulp\<bar> * ulp
            = \<bar>(of_int (round_half_even (x / ulp)) - x / ulp) * ulp\<bar>"
      using ulp_pos by (simp add: abs_mult)
    also have "(of_int (round_half_even (x / ulp)) - x / ulp) * ulp = to_double x - x"
      using ulp_pos by (simp add: td algebra_simps)
    finally show ?thesis .
  qed
  ultimately have err: "\<bar>to_double x - x\<bar> \<le> ulp / 2" by simp
  have "ulp = 2 powi e / 2 ^ 52"
    by (simp add: ulp_def power_int_diff)
  moreover have "2 powi e \<le> \<bar>x\<bar>" using binade(1)[OF False] by (simp add: e_def)
  ultimately have "ulp / 2 \<le> \<bar>x\<bar> / 2 ^ 53"
    by (simp add: field_simps)
  with err show ?thesis by linarith
qed



subsection \<open>Scoring\<close>

lemma mark_answer_frame:
  "exam_attempts (mark_answer uid d aid qid b) = exam_attempts d"
  "exams (mark_answer uid d aid qid b) = exams d"
  "profiles (mark_answer uid d aid qid b) = profiles d"
  "questions_tbl (mark_answer uid d aid qid b) = questions_tbl d"
  by (simp_all add: mark_answer_def)

lemma score_loop_total:
  "list_all (\<lambda>j. ja_questions j \<noteq> None) answers \<Longrightarrow>
   \<exists>c' d'. score_loop uid aid answers (s, c, d) = Inr (s + spec_score answers, c', d') \<and>
           exam_attempts d' = exam_attempts d \<and> exams d' = exams d \<and>
           profiles d' = profiles d \<and> questions_tbl d' = questions_tbl d"
proof (induction answers arbitrary: s c d)
  case Nil
  then show ?case by (simp add: spec_score_def)
next
  case (Cons a answers)
  from Cons.prems obtain q where q: "ja_questions a = Some q" by auto
  from Cons.prems have rest: "list_all (\<lambda>j. ja_questions j \<noteq> None) answers" by simp
  let ?b = "ja_selected_answer a = qk_correct_answer q"
  let ?d1 = "mark_answer uid d aid (ja_question_id a) ?b"
  show ?case
  proof (cases ?b)
    case True
    from Cons.IH[OF rest, of "s + qk_marks q" "c + 1" ?d1]
    show ?thesis using q True
      by (simp add: spec_score_def answer_correct_def answer_marks_def mark_answer_frame add.assoc)
  next
    case False
    from Cons.IH[OF rest, of s c ?d1]
    show ?thesis using q False
      by (simp add: spec_score_def answer_correct_def answer_marks_def mark_answer_frame)
  qed
qed


lemmas scenario_defs = scenario_exam_def scenario_question_def scenario_attempt_def scenario_db_def
  scenario_page_def initial_page_def

lemma scenario_lookup:
  "select_exam (scenario_db x) ''e1'' = Inr scenario_exam"
  "ex_is_active scenario_exam"
  "select_in_progress ''s1'' (scenario_db x) ''e1'' ''s1'' = Inr scenario_attempt"
  by (simp_all add: select_exam_def select_in_progress_def exam_attempts_policy_def scenario_defs)

subsection \<open>Effect of the operations on the attempts\<close>

lemma single_Inr: "single xs = Inr x \<Longrightarrow> xs = [x]"
  by (cases xs rule: single.cases) auto

lemma single_Inl: "single xs = Inl e \<Longrightarrow> length xs \<noteq> 1"
  by (cases xs rule: single.cases) auto

lemma score_loop_frame:
  "score_loop uid aid answers (s, c, d) = r \<Longrightarrow>
   exam_attempts (case r of Inl (e, d') \<Rightarrow> d' | Inr (s', c', d') \<Rightarrow> d') = exam_attempts d \<and>
   exams (case r of Inl (e, d') \<Rightarrow> d' | Inr (s', c', d') \<Rightarrow> d') = exams d"
proof (induction answers arbitrary: s c d)
  case Nil
  then show ?case by auto
next
  case (Cons a answers)
  show ?case
  proof (cases "ja_questions a")
    case None
    with Cons.prems show ?thesis by auto
  next
    case (Some q)
    with Cons.prems Cons.IH show ?thesis
      by (simp add: Let_def mark_answer_frame split: if_splits)
  qed
qed

lemma complete_attempt_attempts:
  "exam_attempts d1 = exam_attempts d \<Longrightarrow>
   exam_attempts (complete_attempt uid now d1 aid s p) = exam_attempts (complete_attempt uid now d aid s p)"
  by (simp add: complete_attempt_def exam_attempts_policy_def)

lemma select_in_progress_Inl:
  "select_in_progress uid d examId uid = Inl e \<Longrightarrow> in_progress_count d uid examId \<noteq> 1"
proof -
  assume "select_in_progress uid d examId uid = Inl e"
  then have "length (filter (\<lambda>a. exam_attempts_policy d uid a \<and> att_exam_id a = examId \<and>
                         att_student_id a = uid \<and> att_status a = ''in_progress'') (exam_attempts d)) \<noteq> 1"
    unfolding select_in_progress_def by (rule single_Inl)
  moreover have "(\<lambda>a. exam_attempts_policy d uid a \<and> att_exam_id a = examId \<and>
                         att_student_id a = uid \<and> att_status a = ''in_progress'')
      = (\<lambda>a. att_student_id a = uid \<and> att_exam_id a = examId \<and> att_status a = ''in_progress'')"
    by (auto simp: exam_attempts_policy_def)
  ultimately show ?thesis by (simp add: in_progress_count_def)
qed

lemma single_exam:
  "select_exam d examId = Inr examData \<Longrightarrow>
   list_ex (\<lambda>e. ex_id e = examId \<and> ex_total_marks e = ex_total_marks examData) (exams d)"
proof -
  assume "select_exam d examId = Inr examData"
  then have "filter (\<lambda>e. ex_id e = examId) (exams d) = [examData]"
    unfolding select_exam_def by (rule single_Inr)
  then have "examData \<in> set (filter (\<lambda>e. ex_id e = examId) (exams d))" by simp
  then show ?thesis by (auto simp: list_ex_iff)
qed

lemma insert_attempt_created:
  assumes "select_in_progress uid d examId uid = Inl e"
    and "select_exam d examId = Inr examData"
    and "insert_attempt uid now new_id d examId uid (ex_total_marks examData) ''in_progress'' = Inr (d', row)"
  shows "created d d'"
  using assms(3) select_in_progress_Inl[OF assms(1)] single_exam[OF assms(2)]
  by (auto simp: insert_attempt_def created_def Let_def split: if_splits)

lemma startExam_attempts:
  "exam_attempts (fst (startExam uid examId now new_id d)) = exam_attempts d \<or>
   created d (fst (startExam uid examId now new_id d))"
proof (cases "select_in_progress uid d examId uid")
  case (Inr a)
  then show ?thesis by (simp add: startExam_def)
next
  case (Inl e)
  show ?thesis
  proof (cases "select_exam d examId")
    case (Inl e2)
    with \<open>select_in_progress uid d examId uid = Inl e\<close> show ?thesis by (simp add: startExam_def)
  next
    case (Inr examData)
    show ?thesis
    proof (cases "insert_attempt uid now new_id d examId uid (ex_total_marks examData) ''in_progress''")
      case (Inl e3)
      with Inr \<open>select_in_progress uid d examId uid = Inl e\<close> show ?thesis by (simp add: startExam_def)
    next
      case ins: (Inr res)
      obtain d' row where res: "res = (d', row)" by (cases res)
      from insert_attempt_created[OF \<open>select_in_progress uid d examId uid = Inl e\<close> Inr ins[unfolded res]]
      have "created d d'" .
      with Inr ins res \<open>select_in_progress uid d examId uid = Inl e\<close> show ?thesis
        by (simp add: startExam_def)
    qed
  qed
qed

lemma fetchExamData_attempts:
  "exam_attempts (fst (fetchExamData uid examId now new_id d pg)) = exam_attempts d \<or>
   created d (fst (fetchExamData uid examId now new_id d pg))"
proof (cases "select_exam d examId")
  case (Inl e)
  then show ?thesis by (simp add: fetchExamData_def)
next
  case (Inr examData)
  show ?thesis
  proof (cases "select_in_progress uid d examId uid")
    case att: (Inr a)
    with Inr show ?thesis by (simp add: fetchExamData_def Let_def)
  next
    case att: (Inl e)
    show ?thesis
    proof (cases "insert_attempt uid now new_id d examId uid (ex_total_marks examData) ''in_progress''")
      case (Inl e3)
      with Inr att show ?thesis by (simp add: fetchExamData_def Let_def)
    next
      case ins: (Inr res)
      obtain d' row where res: "res = (d', row)" by (cases res)
      from insert_attempt_created[OF att Inr ins[unfolded res]]
      have "created d d'" .
      with Inr ins res att show ?thesis
        by (simp add: fetchExamData_def Let_def)
    qed
  qed
qed

lemma handleAnswerSelect_attempts:
  "exam_attempts (fst (handleAnswerSelect uid questionId answer d pg)) = exam_attempts d"
  by (auto simp: handleAnswerSelect_def upsert_answer_def Let_def split: option.splits sum.splits if_splits)

lemma handleSubmitExam_attempts:
  "exam_attempts (fst (handleSubmitExam uid now d pg)) = exam_attempts d \<or>
   completed d (fst (handleSubmitExam uid now d pg))"
proof (cases "pg_isSubmitting pg")
  case True
  then show ?thesis by (simp add: handleSubmitExam_def)
next
  case False
  show ?thesis
  proof (cases "pg_currentAttempt pg")
    case None
    with False show ?thesis by (simp add: handleSubmitExam_def)
  next
    case (Some a)
    let ?r = "score_loop uid (att_id a) (select_answers_with_questions uid d (att_id a)) (0, 0, d)"
    note fr = score_loop_frame[of uid "att_id a" "select_answers_with_questions uid d (att_id a)" 0 0 d ?r, OF refl]
    show ?thesis
    proof (cases ?r)
      case (Inl ed)
      with fr False Some show ?thesis by (cases ed) (simp add: handleSubmitExam_def)
    next
      case (Inr res)
      obtain s c d1 where res: "res = (s, c, d1)" by (cases res)
      from fr Inr res have "exam_attempts d1 = exam_attempts d" by simp
      from complete_attempt_attempts[OF this]
      have "completed d (complete_attempt uid now d1 (att_id a) s (percentage_of (pg_exam pg) s))"
        unfolding completed_def by blast
      with False Some Inr res show ?thesis by (simp add: handleSubmitExam_def)
    qed
  qed
qed

lemma timer_effect_attempts:
  "exam_attempts (fst (timer_effect uid now d pg)) = exam_attempts d \<or>
   completed d (fst (timer_effect uid now d pg))"
  using handleSubmitExam_attempts[of uid now d pg] by (simp add: timer_effect_def)

lemma updateExamTotalMarks_attempts: "exam_attempts (updateExamTotalMarks uid examId d qm) = exam_attempts d"
  by (simp add: updateExamTotalMarks_def Let_def)

lemma refetch_attempts: "exam_attempts (fst (refetch uid examId d qm)) = exam_attempts d"
  by (simp add: refetch_def questions_effect_def updateExamTotalMarks_attempts Let_def)

lemma refetch_attempts_eq:
  "refetch uid examId d1 qm = (d2, qm2) \<Longrightarrow> exam_attempts d2 = exam_attempts d1"
  using refetch_attempts[of uid examId d1 qm] by simp

lemma handleSubmit_attempts:
  "exam_attempts (fst (handleSubmit uid examId new_id d qm)) = exam_attempts d"
  by (auto simp: handleSubmit_def Let_def insert_question_def update_question_def
           dest!: refetch_attempts_eq
           split: option.splits sum.splits if_splits prod.splits)

lemma handleDelete_attempts:
  "exam_attempts (fst (handleDelete uid examId confirmed questionId d qm)) = exam_attempts d"
  by (auto simp: handleDelete_def Let_def delete_question_def dest!: refetch_attempts_eq
           split: prod.splits)

lemma toggleUserRole_attempts:
  "exam_attempts (fst (toggleUserRole uid d userId currentRole)) = exam_attempts d"
  by (auto simp: toggleUserRole_def update_profiles_def Let_def split: sum.splits if_splits)

lemma run_attempts:
  "exam_attempts (run op d) = exam_attempts d \<or> created d (run op d) \<or> completed d (run op d)"
proof (cases op)
  case (StartExam uid examId now new_id)
  with startExam_attempts[of uid examId now new_id d] show ?thesis by auto
next
  case (FetchExamData uid examId now new_id pg)
  with fetchExamData_attempts[of uid examId now new_id d pg] show ?thesis by auto
next
  case (HandleAnswerSelect uid questionId answer pg)
  then show ?thesis by (simp add: handleAnswerSelect_attempts)
next
  case (HandleSubmitExam uid now pg)
  with handleSubmitExam_attempts[of uid now d pg] show ?thesis by auto
next
  case (TimerEffect uid now pg)
  with timer_effect_attempts[of uid now d pg] show ?thesis by auto
next
  case (HandleSubmit uid examId new_id qm)
  then show ?thesis by (simp add: handleSubmit_attempts)
next
  case (HandleDelete uid examId confirmed questionId qm)
  then show ?thesis by (simp add: handleDelete_attempts)
next
  case (UpdateExam uid examId updates)
  then show ?thesis by (simp add: updateExam_def)
next
  case (ToggleUserRole uid userId currentRole)
  then show ?thesis by (simp add: toggleUserRole_attempts)
qed

subsection \<open>One attempt in progress\<close>

lemma created_in_progress:
  assumes inv: "\<forall>s e. in_progress_count d s e \<le> 1" and cr: "created d d'"
  shows "in_progress_count d' s e \<le> 1"
proof -
  from cr obtain row where atts: "exam_attempts d' = exam_attempts d @ [row]"
    and none: "in_progress_count d (att_student_id row) (att_exam_id row) \<noteq> 1"
    unfolding created_def by blast
  from inv have "in_progress_count d (att_student_id row) (att_exam_id row) \<le> 1" by blast
  with none have zero: "in_progress_count d (att_student_id row) (att_exam_id row) = 0" by simp
  from inv have le: "in_progress_count d s e \<le> 1" by blast
  show ?thesis
  proof (cases "att_student_id row = s \<and> att_exam_id row = e")
    case True
    with zero show ?thesis by (simp add: in_progress_count_def atts)
  next
    case False
    with le show ?thesis by (auto simp: in_progress_count_def atts)
  qed
qed

lemma length_filter_map_le:
  assumes "\<And>x. P (f x) \<Longrightarrow> P x"
  shows "length (filter P (map f xs)) \<le> length (filter P xs)"
  using assms by (induction xs) auto

lemma completed_in_progress:
  assumes "completed d d'"
  shows "in_progress_count d' s e \<le> in_progress_count d s e"
proof -
  from assms obtain uid now aid score p
    where atts: "exam_attempts d' = exam_attempts (complete_attempt uid now d aid score p)"
    unfolding completed_def by blast
  let ?P = "\<lambda>a. att_student_id a = s \<and> att_exam_id a = e \<and> att_status a = ''in_progress''"
  let ?f = "\<lambda>a. if exam_attempts_policy d uid a \<and> att_id a = aid
                then a\<lparr> att_status := ''completed'', att_score := Some score,
                        att_percentage := Some p, att_completed_at := Some now \<rparr>
                else a"
  have "length (filter ?P (map ?f (exam_attempts d))) \<le> length (filter ?P (exam_attempts d))"
    by (rule length_filter_map_le) (auto split: if_splits)
  then show ?thesis
    by (simp add: in_progress_count_def atts complete_attempt_def)
qed

lemma run_in_progress:
  assumes inv: "\<forall>s e. in_progress_count d s e \<le> 1"
  shows "\<forall>s e. in_progress_count (run op d) s e \<le> 1"
proof (intro allI)
  fix s e
  from inv have le: "in_progress_count d s e \<le> 1" by blast
  from run_attempts[of op d] consider
      (same) "exam_attempts (run op d) = exam_attempts d"
    | (cr) "created d (run op d)" | (co) "completed d (run op d)" by blast
  then show "in_progress_count (run op d) s e \<le> 1"
  proof cases
    case same
    with le show ?thesis by (simp add: in_progress_count_def)
  next
    case cr
    from created_in_progress[OF inv cr] show ?thesis .
  next
    case co
    from completed_in_progress[OF co, of s e] le show ?thesis by simp
  qed
qed

lemma fold_run_in_progress:
  "\<forall>s e. in_progress_count d s e \<le> 1 \<Longrightarrow> \<forall>s e. in_progress_count (fold run ops d) s e \<le> 1"
proof (induction ops arbitrary: d)
  case Nil
  then show ?case by simp
next
  case (Cons op ops)
  from Cons.IH[OF run_in_progress[OF Cons.prems, of op]] show ?case by simp
qed

text \<open>
  Claim C8. In a store where every student has at most one attempt in progress
  at every exam, this still holds after any sequence of operations run one
  after the other; and each of the two Start paths adds an attempt only when
  the student has no attempt in progress at the exam.
\<close>

theorem at_most_one_in_progress:
  assumes inv: "\<forall>s e. in_progress_count d s e \<le> 1"
  shows "(\<forall>s e. in_progress_count (fold run ops d) s e \<le> 1) \<and>
         (exam_attempts (fst (startExam uid examId now new_id d)) \<noteq> exam_attempts d
            \<longrightarrow> in_progress_count d uid examId = 0) \<and>
         (exam_attempts (fst (fetchExamData uid examId now new_id d pg)) \<noteq> exam_attempts d
            \<longrightarrow> in_progress_count d uid examId = 0)"
proof (intro conjI impI)
  show "\<forall>s e. in_progress_count (fold run ops d) s e \<le> 1"
    by (rule fold_run_in_progress[OF inv])
next
  from inv have le: "in_progress_count d uid examId \<le> 1" by blast
  {
    assume "exam_attempts (fst (startExam uid examId now new_id d)) \<noteq> exam_attempts d"
    then obtain e where "select_in_progress uid d examId uid = Inl e"
      by (cases "select_in_progress uid d examId uid") (auto simp: startExam_def)
    from select_in_progress_Inl[OF this] le
    show "in_progress_count d uid examId = 0" by simp
  }
  {
    assume ch: "exam_attempts (fst (fetchExamData uid examId now new_id d pg)) \<noteq> exam_attempts d"
    have "\<exists>e. select_in_progress uid d examId uid = Inl e"
    proof (cases "select_in_progress uid d examId uid")
      case (Inl e)
      then show ?thesis by blast
    next
      case (Inr a)
      with ch show ?thesis
        by (cases "select_exam d examId")
           (auto simp: fetchExamData_def Let_def split: if_splits)
    qed
    then obtain e where "select_in_progress uid d examId uid = Inl e" by blast
    from select_in_progress_Inl[OF this] le
    show "in_progress_count d uid examId = 0" by simp
  }
qed

lemma startExam_fresh: "startExam ''s1'' ''e1'' 5 ''a1'' fresh_db = (started_db, [Navigate ''/exam/e1''])"
  by (simp add: startExam_def select_exam_def select_in_progress_def insert_attempt_def exam_attempts_policy_def Let_def
      fresh_db_def started_db_def scenario_exam_def scenario_attempt_def)

lemma startExam_started: "startExam ''s1'' ''e1'' 6 ''a2'' started_db = (started_db, [Navigate ''/exam/e1''])"
  by (simp add: startExam_def select_exam_def select_in_progress_def exam_attempts_policy_def
      fresh_db_def started_db_def scenario_exam_def scenario_attempt_def)

lemma fetchExamData_started: "fst (fetchExamData ''s1'' ''e1'' 7 ''a3'' started_db initial_page) = started_db"
  by (simp add: fetchExamData_def select_exam_def select_in_progress_def exam_attempts_policy_def
      fresh_db_def started_db_def scenario_exam_def scenario_attempt_def)

text \<open>
  From a store without attempts, two starts from the dashboard and one opening of
  the exam page leave a single attempt, the first.
\<close>

theorem at_most_one_in_progress_witness:
  "(\<forall>s e. in_progress_count fresh_db s e \<le> 1) \<and>
   in_progress_count (fold run [StartExam ''s1'' ''e1'' 5 ''a1'', StartExam ''s1'' ''e1'' 6 ''a2'',
                                 FetchExamData ''s1'' ''e1'' 7 ''a3'' initial_page] fresh_db)
                     ''s1'' ''e1'' \<le> 1 \<and>
   map att_id (exam_attempts (fold run [StartExam ''s1'' ''e1'' 5 ''a1'', StartExam ''s1'' ''e1'' 6 ''a2'',
                                 FetchExamData ''s1'' ''e1'' 7 ''a3'' initial_page] fresh_db)) = [''a1''] \<and>
   exam_attempts (fst (startExam ''s1'' ''e1'' 5 ''a1'' fresh_db)) \<noteq> exam_attempts fresh_db \<and>
   in_progress_count fresh_db ''s1'' ''e1'' = 0"
proof -
  have inv: "\<forall>s e. in_progress_count fresh_db s e \<le> 1"
    by (simp add: in_progress_count_def fresh_db_def)
  have ch: "exam_attempts (fst (startExam ''s1'' ''e1'' 5 ''a1'' fresh_db)) \<noteq> exam_attempts fresh_db"
    using startExam_fresh by (simp add: started_db_def fresh_db_def)
  have ids: "map att_id (exam_attempts (fold run [StartExam ''s1'' ''e1'' 5 ''a1'', StartExam ''s1'' ''e1'' 6 ''a2'',
                                 FetchExamData ''s1'' ''e1'' 7 ''a3'' initial_page] fresh_db)) = [''a1'']"
    by (simp add: startExam_fresh startExam_started fetchExamData_started)
       (simp add: started_db_def scenario_attempt_def)
  from at_most_one_in_progress[OF inv, of "[StartExam ''s1'' ''e1'' 5 ''a1'', StartExam ''s1'' ''e1'' 6 ''a2'',
                                 FetchExamData ''s1'' ''e1'' 7 ''a3'' initial_page]" "''s1''" "''e1''" 5 "''a1''"]
  show ?thesis using inv ch ids by blast
qed

subsection \<open>The snapshot of the total\<close>

lemma run_snapshot:
  "prefix (map snapshot (exam_attempts d)) (map snapshot (exam_attempts (run op d)))"
proof -
  from run_attempts[of op d] consider
      (same) "exam_attempts (run op d) = exam_attempts d"
    | (cr) "created d (run op d)" | (co) "completed d (run op d)" by blast
  then show ?thesis
  proof cases
    case same
    then show ?thesis by simp
  next
    case cr
    then show ?thesis by (auto simp: created_def)
  next
    case co
    then obtain uid now aid score p
      where "exam_attempts (run op d) = exam_attempts (complete_attempt uid now d aid score p)"
      unfolding completed_def by blast
    moreover have "map snapshot (exam_attempts (complete_attempt uid now d aid score p))
                     = map snapshot (exam_attempts d)"
      by (simp add: complete_attempt_def snapshot_def)
    ultimately show ?thesis by simp
  qed
qed

lemma fold_run_snapshot:
  "prefix (map snapshot (exam_attempts d)) (map snapshot (exam_attempts (fold run ops d)))"
proof (induction ops arbitrary: d)
  case Nil
  then show ?case by simp
next
  case (Cons op ops)
  from run_snapshot[of d op] Cons.IH[of "run op d"]
  have "prefix (map snapshot (exam_attempts d))
               (map snapshot (exam_attempts (fold run ops (run op d))))"
    by (rule prefix_order.trans)
  then show ?case by simp
qed

lemma run_new_rows:
  "list_all (\<lambda>row. list_ex (\<lambda>e. ex_id e = att_exam_id row \<and> ex_total_marks e = att_total_marks row)
                            (exams d))
            (drop (length (exam_attempts d)) (exam_attempts (run op d)))"
proof -
  from run_attempts[of op d] consider
      (same) "exam_attempts (run op d) = exam_attempts d"
    | (cr) "created d (run op d)" | (co) "completed d (run op d)" by blast
  then show ?thesis
  proof cases
    case same
    then show ?thesis by simp
  next
    case cr
    then show ?thesis by (auto simp: created_def)
  next
    case co
    then obtain uid now aid score p
      where "exam_attempts (run op d) = exam_attempts (complete_attempt uid now d aid score p)"
      unfolding completed_def by blast
    then show ?thesis by (simp add: complete_attempt_def)
  qed
qed

text \<open>
  Claim C9. Through any sequence of operations the attempts already in the store
  keep their identity and their \<open>total_marks\<close> (the relation only grows at its
  end), and an attempt that an operation adds carries the \<open>total_marks\<close> that
  an exam row with its exam id has at that moment.
\<close>

theorem attempt_total_marks_snapshot:
  "prefix (map snapshot (exam_attempts d)) (map snapshot (exam_attempts (fold run ops d))) \<and>
   list_all (\<lambda>row. list_ex (\<lambda>e. ex_id e = att_exam_id row \<and> ex_total_marks e = att_total_marks row)
                            (exams d))
            (drop (length (exam_attempts d)) (exam_attempts (run op d)))"
  using fold_run_snapshot run_new_rows by blast

text \<open>
  The admin sets the exam's total to 50 after the attempt was created with a
  total of 10, then the student submits: the attempt still records 10.
\<close>

theorem attempt_total_marks_snapshot_witness:
  "map ex_total_marks (exams (fold run edited_ops started_db)) = [50] \<and>
   map snapshot (exam_attempts (fold run edited_ops started_db)) = [(''a1'', 10)] \<and>
   map att_status (exam_attempts (fold run edited_ops started_db)) = [''completed''] \<and>
   map snapshot (drop (length (exam_attempts fresh_db))
      (exam_attempts (run (StartExam ''s1'' ''e1'' 5 ''a1'') fresh_db))) = [(''a1'', 10)]"
proof -
  have upd: "updateExam ''t1'' started_db ''e1'' (\<lambda>e. e\<lparr>ex_total_marks := 50\<rparr>)
               = started_db\<lparr>exams := [scenario_exam\<lparr>ex_total_marks := 50\<rparr>]\<rparr>"
    by (simp add: updateExam_def admins_can_manage_exams_def get_current_user_role_def
        started_db_def fresh_db_def scenario_exam_def)
  have sub: "exam_attempts (fst (handleSubmitExam ''s1'' 9
                 (started_db\<lparr>exams := [scenario_exam\<lparr>ex_total_marks := 50\<rparr>]\<rparr>) scenario_page))
               = [scenario_attempt\<lparr> att_started_at := 5, att_status := ''completed'', att_score := Some 0,
                     att_percentage := Some 0, att_completed_at := Some 9 \<rparr>]"
    by (simp add: handleSubmitExam_def select_answers_with_questions_def complete_attempt_def
        exam_attempts_policy_def percentage_of_def double_div_def double_mul_def
        started_db_def fresh_db_def scenario_page_def initial_page_def scenario_attempt_def scenario_exam_def)
  have exs: "exams (fst (handleSubmitExam ''s1'' 9
                 (started_db\<lparr>exams := [scenario_exam\<lparr>ex_total_marks := 50\<rparr>]\<rparr>) scenario_page))
               = [scenario_exam\<lparr>ex_total_marks := 50\<rparr>]"
    by (simp add: handleSubmitExam_def select_answers_with_questions_def complete_attempt_def
        started_db_def fresh_db_def scenario_page_def initial_page_def scenario_attempt_def)
  have st: "map snapshot (exam_attempts started_db) = [(''a1'', 10)]"
    by (simp add: started_db_def snapshot_def scenario_attempt_def)
  from attempt_total_marks_snapshot[of started_db edited_ops "StartExam ''s1'' ''e1'' 5 ''a1''"]
  have "prefix [(''a1'', 10)] (map snapshot (exam_attempts (fold run edited_ops started_db)))"
    by (simp add: st)
  moreover have "length (exam_attempts (fold run edited_ops started_db)) = 1"
    by (simp add: edited_ops_def upd sub)
  ultimately have snap: "map snapshot (exam_attempts (fold run edited_ops started_db)) = [(''a1'', 10)]"
    by (cases "exam_attempts (fold run edited_ops started_db)") (auto simp: prefix_def)
  show ?thesis
    using snap
    by (simp add: edited_ops_def upd sub exs startExam_fresh)
       (simp add: started_db_def fresh_db_def snapshot_def scenario_attempt_def)
qed

subsection \<open>Starting an exam that is not active\<close>

text \<open>
  Claim C7. Start is to create no attempt for an exam that is not active. The
  exam page keeps to this, the dashboard's \<open>startExam\<close> does not: run on a
  store whose exam has been deactivated it inserts an attempt in progress and
  navigates to the exam.
\<close>

theorem startExam_inactive_exam_creates_attempt:
  "map ex_is_active (exams inactive_db) = [False] \<and> exam_attempts inactive_db = [] \<and>
   startExam ''s1'' ''e1'' 5 ''a1'' inactive_db =
     (inactive_db\<lparr>exam_attempts := [scenario_attempt\<lparr>att_started_at := 5\<rparr>]\<rparr>, [Navigate ''/exam/e1''])"
  by (simp add: startExam_def select_exam_def select_in_progress_def insert_attempt_def exam_attempts_policy_def Let_def
      inactive_db_def fresh_db_def scenario_exam_def scenario_attempt_def)

text \<open>The exam page, by contrast, leaves the store alone and reports the exam as not active.\<close>

lemma fetchExamData_inactive:
  assumes "select_exam d examId = Inr examData" and "\<not> ex_is_active examData"
  shows "fetchExamData uid examId now new_id d pg =
           (d, pg\<lparr>pg_loading := False\<rparr>,
            [ToastError ''This exam is not currently active'', Navigate ''/dashboard''])"
  using assms by (simp add: fetchExamData_def)

subsection \<open>Roles\<close>

lemma find_key_iff:
  assumes "distinct (map p_id (profiles d))" and "P \<in> set (profiles d)"
  shows "get_current_user_role d (p_id P) = Some (p_role P)"
  using find_distinct_key[of p_id "profiles d" P, OF assms]
  by (simp add: get_current_user_role_def)

text \<open>
  Claim C1, as amended. With one profile per identity, the role resolver returns
  admin for a profile exactly when the role of that profile is admin; and an
  update of profiles that a non-admin identity is authorized to perform leaves
  the rows of all other identities as they are, so it changes nobody else's
  role.
\<close>

theorem role_resolver:
  assumes "distinct (map p_id (profiles d))" and "P \<in> set (profiles d)"
  shows "(get_current_user_role d (p_id P) = Some ''admin'' \<longleftrightarrow> p_role P = ''admin'') \<and>
         (get_current_user_role d uid \<noteq> Some ''admin'' \<longrightarrow>
          update_profiles uid d sel f = Inr d' \<longrightarrow>
          filter (\<lambda>r. p_id r \<noteq> uid) (profiles d') = filter (\<lambda>r. p_id r \<noteq> uid) (profiles d))"
proof (intro conjI impI)
  show "get_current_user_role d (p_id P) = Some ''admin'' \<longleftrightarrow> p_role P = ''admin''"
    by (simp add: find_key_iff[OF assms])
next
  assume nonadmin: "get_current_user_role d uid \<noteq> Some ''admin''"
    and upd: "update_profiles uid d sel f = Inr d'"
  let ?hit = "\<lambda>r. sel r \<and> profiles_policy d uid r"
  from nonadmin have pol: "profiles_policy d uid r \<longleftrightarrow> uid = p_id r" for r
    by (simp add: profiles_policy_def admin_can_manage_all_profiles_def users_can_manage_own_profile_def)
  from upd have chk: "\<not> list_ex (\<lambda>r. ?hit r \<and> \<not> profiles_policy d uid (f r)) (profiles d)"
    and d': "profiles d' = map (\<lambda>r. if ?hit r then f r else r) (profiles d)"
    by (auto simp: update_profiles_def Let_def split: if_splits)
  have "filter (\<lambda>r. p_id r \<noteq> uid) (map (\<lambda>r. if ?hit r then f r else r) xs)
          = filter (\<lambda>r. p_id r \<noteq> uid) xs" if "set xs \<subseteq> set (profiles d)" for xs
    using that
  proof (induction xs)
    case Nil
    then show ?case by simp
  next
    case (Cons r xs)
    from Cons.prems have r: "r \<in> set (profiles d)" by simp
    with chk have "?hit r \<Longrightarrow> profiles_policy d uid (f r)" by (auto simp: list_ex_iff)
    then have new: "?hit r \<Longrightarrow> p_id (f r) = uid" by (metis pol)
    have old: "?hit r \<Longrightarrow> p_id r = uid" by (metis pol)
    from Cons.prems Cons.IH have IH: "filter (\<lambda>r. p_id r \<noteq> uid) (map (\<lambda>r. if ?hit r then f r else r) xs)
          = filter (\<lambda>r. p_id r \<noteq> uid) xs" by simp
    show ?case
    proof (cases "?hit r")
      case True
      with new old IH show ?thesis by simp
    next
      case False
      with IH show ?thesis by auto
    qed
  qed
  from this[of "profiles d"] d'
  show "filter (\<lambda>r. p_id r \<noteq> uid) (profiles d') = filter (\<lambda>r. p_id r \<noteq> uid) (profiles d)"
    by simp
qed

text \<open>A student's attempt to demote the admin changes no row of another identity.\<close>

theorem role_resolver_witness:
  "distinct (map p_id (profiles fresh_db)) \<and>
   get_current_user_role fresh_db ''t1'' = Some ''admin'' \<and>
   get_current_user_role fresh_db ''s1'' \<noteq> Some ''admin'' \<and>
   filter (\<lambda>r. p_id r \<noteq> ''s1'') (profiles (fst (toggleUserRole ''s1'' fresh_db ''t1'' ''admin'')))
     = filter (\<lambda>r. p_id r \<noteq> ''s1'') (profiles fresh_db)"
proof -
  let ?admin = "\<lparr> p_id = ''t1'', p_full_name = ''Terry'', p_email = ''terry@neu.edu.ph'', p_role = ''admin'' \<rparr>"
  let ?student = "\<lparr> p_id = ''s1'', p_full_name = ''Sam'', p_email = ''sam@example.org'', p_role = ''student'' \<rparr>"
  have dist: "distinct (map p_id (profiles fresh_db))" by (simp add: fresh_db_def)
  have mem: "?admin \<in> set (profiles fresh_db)" "?student \<in> set (profiles fresh_db)"
    by (simp_all add: fresh_db_def)
  have upd: "update_profiles ''s1'' fresh_db (\<lambda>r. p_id r = ''t1'') (\<lambda>r. r\<lparr>p_role := ''student''\<rparr>)
               = Inr (fst (toggleUserRole ''s1'' fresh_db ''t1'' ''admin''))"
    by (simp add: toggleUserRole_def update_profiles_def profiles_policy_def
      admin_can_manage_all_profiles_def users_can_manage_own_profile_def
      get_current_user_role_def Let_def fresh_db_def)
  from role_resolver[OF dist mem(1), of "''s1''" "\<lambda>r. p_id r = ''t1''" "\<lambda>r. r\<lparr>p_role := ''student''\<rparr>"
        "fst (toggleUserRole ''s1'' fresh_db ''t1'' ''admin'')"]
       role_resolver[OF dist mem(2), of "''s1''" "\<lambda>r. p_id r = ''t1''" "\<lambda>r. r\<lparr>p_role := ''student''\<rparr>"
        "fst (toggleUserRole ''s1'' fresh_db ''t1'' ''admin'')"]
  show ?thesis using dist upd by simp
qed

text \<open>
  The claim as written fails: the policy on a user's own profile covers every
  column, so the update of the role that the admin panel sends is accepted when
  a student sends it for the student's own row.
\<close>

theorem self_promotion_counterexample:
  "get_current_user_role fresh_db ''s1'' = Some ''student'' \<and>
   get_current_user_role (fst (toggleUserRole ''s1'' fresh_db ''s1'' ''student'')) ''s1'' = Some ''admin''"
  by (simp add: toggleUserRole_def update_profiles_def profiles_policy_def
      admin_can_manage_all_profiles_def users_can_manage_own_profile_def
      get_current_user_role_def Let_def fresh_db_def)

subsection \<open>The total of an exam\<close>

lemma fold_marks: "fold (\<lambda>q sum. sum + q_marks q) qs acc = acc + sum_list (map q_marks qs)"
  by (induction qs arbitrary: acc) auto

lemma sum_list_sort_key: "sum_list (map f (sort_key k xs)) = sum_list (map (f::'a \<Rightarrow> int) xs)"
proof -
  have "sum_list (map f (sort_key k xs)) = sum_mset (image_mset f (mset (sort_key k xs)))"
    by (metis mset_map sum_mset_sum_list)
  also have "\<dots> = sum_mset (image_mset f (mset xs))" by simp
  also have "\<dots> = sum_list (map f xs)" by (metis mset_map sum_mset_sum_list)
  finally show ?thesis .
qed

lemma select_questions_marks:
  "sum_list (map q_marks (select_questions d examId)) = sum_list (map q_marks (exam_questions d examId))"
  by (simp add: select_questions_def exam_questions_def sum_list_sort_key)

lemma select_questions_empty:
  "select_questions d examId = [] \<longleftrightarrow> exam_questions d examId = []"
  by (metis select_questions_def exam_questions_def length_sort length_0_conv)

lemma refetch_sync:
  assumes admin: "get_current_user_role d1 uid = Some ''admin''"
  shows "(exam_questions (fst (refetch uid examId d1 qm)) examId \<noteq> [] \<longrightarrow>
            total_marks_in_sync (fst (refetch uid examId d1 qm)) examId) \<and>
         (exam_questions (fst (refetch uid examId d1 qm)) examId = [] \<longrightarrow>
            exams (fst (refetch uid examId d1 qm)) = exams d1) \<and>
         questions_tbl (fst (refetch uid examId d1 qm)) = questions_tbl d1"
proof (cases "exam_questions d1 examId = []")
  case True
  then show ?thesis
    by (simp add: refetch_def questions_effect_def fetchQuestions_def select_questions_empty
        exam_questions_def)
next
  case False
  then have ne: "select_questions d1 examId \<noteq> []" by (simp add: select_questions_empty)
  have d2: "fst (refetch uid examId d1 qm) =
        d1\<lparr>exams := map (\<lambda>e. if ex_id e = examId
                               then e\<lparr>ex_total_marks := sum_list (map q_marks (exam_questions d1 examId))\<rparr>
                               else e) (exams d1)\<rparr>"
    using ne admin
    by (simp add: refetch_def questions_effect_def fetchQuestions_def updateExamTotalMarks_def
        admins_can_manage_exams_def fold_marks select_questions_marks Let_def)
  let ?S = "sum_list (map q_marks (exam_questions d1 examId))"
  let ?g = "\<lambda>e. if ex_id e = examId then e\<lparr>ex_total_marks := ?S\<rparr> else e"
  have each: "ex_id (?g x) = examId \<longrightarrow> ex_total_marks (?g x) = ?S" for x
    by simp
  have qs: "exam_questions (d1\<lparr>exams := map ?g (exams d1)\<rparr>) examId = exam_questions d1 examId"
    by (simp add: exam_questions_def)
  have "list_all (\<lambda>e. ex_id e = examId \<longrightarrow> ex_total_marks e = ?S) (map ?g (exams d1))"
    unfolding list_all_iff using each by (metis (no_types, lifting) imageE list.set_map)
  then have "total_marks_in_sync (d1\<lparr>exams := map ?g (exams d1)\<rparr>) examId"
    by (simp add: total_marks_in_sync_def qs)
  with False show ?thesis
    by (simp add: d2 qs)
qed

lemma handleSubmit_store:
  assumes admin: "get_current_user_role d uid = Some ''admin''"
    and form: "qf_correct_answer (qm_questionForm qm) \<noteq> []"
  shows "\<exists>d1. fst (handleSubmit uid examId new_id d qm) = fst (refetch uid examId d1 qm) \<and>
              get_current_user_role d1 uid = Some ''admin'' \<and> exams d1 = exams d \<and>
              questions_tbl d1 =
                (case qm_editingQuestion qm of
                   None \<Rightarrow> questions_tbl (case insert_question uid new_id d examId (qm_questionForm qm) of
                                             Inr d' \<Rightarrow> d' | Inl e \<Rightarrow> d)
                 | Some q \<Rightarrow> questions_tbl (update_question uid d (q_id q) (qm_questionForm qm)))"
proof (cases "qm_editingQuestion qm")
  case None
  let ?d1 = "d\<lparr>questions_tbl := questions_tbl d @
                   [\<lparr> q_id = new_id, q_exam_id = examId, q_question_text = qf_question_text (qm_questionForm qm),
                      q_correct_answer = qf_correct_answer (qm_questionForm qm), q_marks = qf_marks (qm_questionForm qm),
                      q_order_number = qf_order_number (qm_questionForm qm) \<rparr>]\<rparr>"
  from admin have ins: "insert_question uid new_id d examId (qm_questionForm qm) = Inr ?d1"
    by (simp add: insert_question_def admins_can_manage_questions_def)
  have "fst (handleSubmit uid examId new_id d qm) = fst (refetch uid examId ?d1 qm)"
    using form None ins by (simp add: handleSubmit_def Let_def split: prod.splits)
  moreover have "get_current_user_role ?d1 uid = Some ''admin''"
    using admin by (simp add: get_current_user_role_def)
  ultimately show ?thesis using None ins by (intro exI[of _ ?d1]) simp
next
  case (Some q)
  let ?d1 = "update_question uid d (q_id q) (qm_questionForm qm)"
  have "fst (handleSubmit uid examId new_id d qm) = fst (refetch uid examId ?d1 qm)"
    using form Some by (simp add: handleSubmit_def Let_def split: prod.splits)
  moreover have "get_current_user_role ?d1 uid = Some ''admin''" "exams ?d1 = exams d"
    using admin by (simp_all add: get_current_user_role_def update_question_def)
  ultimately show ?thesis using Some by (intro exI[of _ ?d1]) simp
qed

lemma handleDelete_store:
  assumes admin: "get_current_user_role d uid = Some ''admin''"
  shows "fst (handleDelete uid examId True questionId d qm)
           = fst (refetch uid examId (delete_question uid d questionId) qm) \<and>
         get_current_user_role (delete_question uid d questionId) uid = Some ''admin'' \<and>
         exams (delete_question uid d questionId) = exams d \<and>
         questions_tbl (delete_question uid d questionId) = filter (\<lambda>q. q_id q \<noteq> questionId) (questions_tbl d)"
  using admin
  by (simp add: handleDelete_def Let_def get_current_user_role_def delete_question_def
      admins_can_manage_questions_def split: prod.splits)

text \<open>
  Claim C3, as amended. For an admin, when saving a question (create or update)
  or deleting one has gone through, the store holds the changed questions, and
  the total of the exam equals the sum of the marks of its questions provided
  at least one question remains. When no question of the exam remains the
  exam rows are left as they were.
\<close>

theorem total_marks_in_sync_while_questions_remain:
  assumes admin: "get_current_user_role d uid = Some ''admin''"
  shows "(qf_correct_answer (qm_questionForm qm) \<noteq> [] \<longrightarrow>
            questions_tbl (fst (handleSubmit uid examId new_id d qm)) =
              (case qm_editingQuestion qm of
                 None \<Rightarrow> questions_tbl d @
                   [\<lparr> q_id = new_id, q_exam_id = examId,
                      q_question_text = qf_question_text (qm_questionForm qm),
                      q_correct_answer = qf_correct_answer (qm_questionForm qm),
                      q_marks = qf_marks (qm_questionForm qm),
                      q_order_number = qf_order_number (qm_questionForm qm) \<rparr>]
               | Some q \<Rightarrow> questions_tbl (update_question uid d (q_id q) (qm_questionForm qm))) \<and>
            (exam_questions (fst (handleSubmit uid examId new_id d qm)) examId \<noteq> [] \<longrightarrow>
               total_marks_in_sync (fst (handleSubmit uid examId new_id d qm)) examId) \<and>
            (exam_questions (fst (handleSubmit uid examId new_id d qm)) examId = [] \<longrightarrow>
               exams (fst (handleSubmit uid examId new_id d qm)) = exams d)) \<and>
         questions_tbl (fst (handleDelete uid examId True questionId d qm)) =
            filter (\<lambda>q. q_id q \<noteq> questionId) (questions_tbl d) \<and>
         (exam_questions (fst (handleDelete uid examId True questionId d qm)) examId \<noteq> [] \<longrightarrow>
            total_marks_in_sync (fst (handleDelete uid examId True questionId d qm)) examId) \<and>
         (exam_questions (fst (handleDelete uid examId True questionId d qm)) examId = [] \<longrightarrow>
            exams (fst (handleDelete uid examId True questionId d qm)) = exams d)"
proof -
  have save: "questions_tbl (fst (handleSubmit uid examId new_id d qm)) =
              (case qm_editingQuestion qm of
                 None \<Rightarrow> questions_tbl d @
                   [\<lparr> q_id = new_id, q_exam_id = examId,
                      q_question_text = qf_question_text (qm_questionForm qm),
                      q_correct_answer = qf_correct_answer (qm_questionForm qm),
                      q_marks = qf_marks (qm_questionForm qm),
                      q_order_number = qf_order_number (qm_questionForm qm) \<rparr>]
               | Some q \<Rightarrow> questions_tbl (update_question uid d (q_id q) (qm_questionForm qm))) \<and>
            (exam_questions (fst (handleSubmit uid examId new_id d qm)) examId \<noteq> [] \<longrightarrow>
               total_marks_in_sync (fst (handleSubmit uid examId new_id d qm)) examId) \<and>
            (exam_questions (fst (handleSubmit uid examId new_id d qm)) examId = [] \<longrightarrow>
               exams (fst (handleSubmit uid examId new_id d qm)) = exams d)"
    if form: "qf_correct_answer (qm_questionForm qm) \<noteq> []"
  proof -
    from handleSubmit_store[OF admin form, of examId new_id]
    obtain d1 where run: "fst (handleSubmit uid examId new_id d qm) = fst (refetch uid examId d1 qm)"
      and adm1: "get_current_user_role d1 uid = Some ''admin''" and ex1: "exams d1 = exams d"
      and q1: "questions_tbl d1 =
                (case qm_editingQuestion qm of
                   None \<Rightarrow> questions_tbl (case insert_question uid new_id d examId (qm_questionForm qm) of
                                             Inr d' \<Rightarrow> d' | Inl e \<Rightarrow> d)
                 | Some q \<Rightarrow> questions_tbl (update_question uid d (q_id q) (qm_questionForm qm)))"
      by blast
    from admin have ins: "questions_tbl (case insert_question uid new_id d examId (qm_questionForm qm) of
                                             Inr d' \<Rightarrow> d' | Inl e \<Rightarrow> d) = questions_tbl d @
                   [\<lparr> q_id = new_id, q_exam_id = examId,
                      q_question_text = qf_question_text (qm_questionForm qm),
                      q_correct_answer = qf_correct_answer (qm_questionForm qm),
                      q_marks = qf_marks (qm_questionForm qm),
                      q_order_number = qf_order_number (qm_questionForm qm) \<rparr>]"
      by (simp add: insert_question_def admins_can_manage_questions_def)
    from refetch_sync[OF adm1, of examId qm] show ?thesis
      unfolding run by (simp add: q1 ins ex1 split: option.splits)
  qed
  have del: "questions_tbl (fst (handleDelete uid examId True questionId d qm)) =
            filter (\<lambda>q. q_id q \<noteq> questionId) (questions_tbl d) \<and>
         (exam_questions (fst (handleDelete uid examId True questionId d qm)) examId \<noteq> [] \<longrightarrow>
            total_marks_in_sync (fst (handleDelete uid examId True questionId d qm)) examId) \<and>
         (exam_questions (fst (handleDelete uid examId True questionId d qm)) examId = [] \<longrightarrow>
            exams (fst (handleDelete uid examId True questionId d qm)) = exams d)"
  proof -
    note st = handleDelete_store[OF admin, of examId questionId qm]
    from st have adm1: "get_current_user_role (delete_question uid d questionId) uid = Some ''admin''"
      by blast
    from refetch_sync[OF adm1, of examId qm] st show ?thesis by simp
  qed
  from save del show ?thesis by blast
qed

text \<open>Adding a question of 5 marks to the exam with one question of 10: the total becomes 15.\<close>

theorem total_marks_in_sync_while_questions_remain_witness:
  "get_current_user_role fresh_db ''t1'' = Some ''admin'' \<and>
   qf_correct_answer (qm_questionForm manager) \<noteq> [] \<and>
   map q_marks (exam_questions (fst (handleSubmit ''t1'' ''e1'' ''q2'' fresh_db manager)) ''e1'') = [10, 5] \<and>
   total_marks_in_sync (fst (handleSubmit ''t1'' ''e1'' ''q2'' fresh_db manager)) ''e1'' \<and>
   map ex_total_marks (exams (fst (handleSubmit ''t1'' ''e1'' ''q2'' fresh_db manager))) = [15]"
proof -
  have adm: "get_current_user_role fresh_db ''t1'' = Some ''admin''"
    by (simp add: get_current_user_role_def fresh_db_def)
  have form: "qf_correct_answer (qm_questionForm manager) \<noteq> []" "qm_editingQuestion manager = None"
    by (simp_all add: manager_def)
  note inst = total_marks_in_sync_while_questions_remain[OF adm, of manager "''e1''" "''q2''" "''q1''"]
  from inst form have qs: "questions_tbl (fst (handleSubmit ''t1'' ''e1'' ''q2'' fresh_db manager)) =
      questions_tbl fresh_db @
                   [\<lparr> q_id = ''q2'', q_exam_id = ''e1'',
                      q_question_text = qf_question_text (qm_questionForm manager),
                      q_correct_answer = qf_correct_answer (qm_questionForm manager),
                      q_marks = qf_marks (qm_questionForm manager),
                      q_order_number = qf_order_number (qm_questionForm manager) \<rparr>]"
    by simp
  then have marks: "map q_marks (exam_questions (fst (handleSubmit ''t1'' ''e1'' ''q2'' fresh_db manager)) ''e1'') = [10, 5]"
    by (simp add: exam_questions_def fresh_db_def scenario_question_def manager_def)
  then have ne: "exam_questions (fst (handleSubmit ''t1'' ''e1'' ''q2'' fresh_db manager)) ''e1'' \<noteq> []"
    by auto
  with inst form have sync: "total_marks_in_sync (fst (handleSubmit ''t1'' ''e1'' ''q2'' fresh_db manager)) ''e1''"
    by blast
  have len: "map ex_id (exams (fst (handleSubmit ''t1'' ''e1'' ''q2'' fresh_db manager))) = [''e1'']"
    by (simp add: handleSubmit_def insert_question_def admins_can_manage_questions_def adm form
        refetch_def questions_effect_def updateExamTotalMarks_def Let_def o_def)
       (simp add: fresh_db_def scenario_exam_def)
  from sync marks len have "map ex_total_marks (exams (fst (handleSubmit ''t1'' ''e1'' ''q2'' fresh_db manager))) = [15]"
    by (cases "exams (fst (handleSubmit ''t1'' ''e1'' ''q2'' fresh_db manager))")
       (auto simp: total_marks_in_sync_def)
  with adm form marks sync show ?thesis by simp
qed

text \<open>
  The claim as written fails: after the only question (10 marks) is deleted the
  exam keeps a total of 10, while the sum over its questions is 0.
\<close>

theorem delete_last_question_counterexample:
  "get_current_user_role fresh_db ''t1'' = Some ''admin'' \<and>
   exam_questions fresh_db ''e1'' = [scenario_question] \<and>
   questions_tbl (fst (handleDelete ''t1'' ''e1'' True ''q1'' fresh_db manager)) = [] \<and>
   map ex_total_marks (exams (fst (handleDelete ''t1'' ''e1'' True ''q1'' fresh_db manager))) = [10] \<and>
   sum_list (map q_marks (exam_questions (fst (handleDelete ''t1'' ''e1'' True ''q1'' fresh_db manager)) ''e1'')) = 0 \<and>
   \<not> total_marks_in_sync (fst (handleDelete ''t1'' ''e1'' True ''q1'' fresh_db manager)) ''e1''"
proof -
  have adm: "get_current_user_role fresh_db ''t1'' = Some ''admin''"
    by (simp add: get_current_user_role_def fresh_db_def)
  have del: "delete_question ''t1'' fresh_db ''q1'' = fresh_db\<lparr>questions_tbl := []\<rparr>"
    by (simp add: delete_question_def admins_can_manage_questions_def adm)
       (simp add: fresh_db_def scenario_question_def)
  have run: "fst (handleDelete ''t1'' ''e1'' True ''q1'' fresh_db manager) = fresh_db\<lparr>questions_tbl := []\<rparr>"
    by (simp add: handleDelete_def del refetch_def fetchQuestions_def questions_effect_def
        select_questions_def Let_def)
  show ?thesis
    by (simp add: run adm exam_questions_def total_marks_in_sync_def)
       (simp add: fresh_db_def scenario_exam_def scenario_question_def)
qed

subsection \<open>The domain check on admin accounts\<close>

lemma toLowerCase_domain: "toLowerCase ''@neu.edu.ph'' = ''@neu.edu.ph''"
  by (simp add: toLowerCase_def toLowerCase_char_def)

lemma isNeuEmail_iff: "isNeuEmail email \<longleftrightarrow> ends_with_ignoring_case email ''@neu.edu.ph''"
proof
  let ?n = "length email - length ''@neu.edu.ph''"
  assume "isNeuEmail email"
  then have len: "length ''@neu.edu.ph'' \<le> length email"
    and suf: "drop ?n (toLowerCase email) = ''@neu.edu.ph''"
    unfolding isNeuEmail_def endsWith_def toLowerCase_def by simp_all
  have split: "email = take ?n email @ drop ?n email" by simp
  have low: "toLowerCase (drop ?n email) = toLowerCase ''@neu.edu.ph''"
    using suf unfolding toLowerCase_domain by (simp add: toLowerCase_def drop_map)
  have l: "length (drop ?n email) = length ''@neu.edu.ph''"
    using len by simp
  from split low l show "ends_with_ignoring_case email ''@neu.edu.ph''"
    unfolding ends_with_ignoring_case_def by blast
next
  assume "ends_with_ignoring_case email ''@neu.edu.ph''"
  then obtain pre t where e: "email = pre @ t" and l: "length t = length ''@neu.edu.ph''"
    and low: "toLowerCase t = ''@neu.edu.ph''"
    unfolding ends_with_ignoring_case_def toLowerCase_domain by blast
  have "toLowerCase email = toLowerCase pre @ ''@neu.edu.ph''"
    using e low by (simp add: toLowerCase_def)
  then show "isNeuEmail email"
    unfolding isNeuEmail_def endsWith_def by simp
qed

text \<open>
  Claim C10. A sign-in or sign-up with the role admin whose email does not end,
  case-insensitively, with @neu.edu.ph makes no call to the identity provider.
  With the role student the domain is not looked at: a sign-in with an email
  and a password, and a sign-up with all fields and a matching password of at
  least 6 characters, make the call whatever the email is.
\<close>

theorem admin_requires_neu_email:
  "(\<not> ends_with_ignoring_case email ''@neu.edu.ph'' \<longrightarrow>
      fst (handleSignIn \<lparr> si_email = email, si_password = password, si_role = ''admin'' \<rparr> answer) = [] \<and>
      fst (handleSignUp \<lparr> su_email = email, su_password = password, su_fullName = fullName,
                           su_confirmPassword = confirmPassword, su_role = ''admin'' \<rparr> answer) = []) \<and>
   (email \<noteq> [] \<and> password \<noteq> [] \<longrightarrow>
      fst (handleSignIn \<lparr> si_email = email, si_password = password, si_role = ''student'' \<rparr> answer)
        = [SignIn email password]) \<and>
   (email \<noteq> [] \<and> fullName \<noteq> [] \<and> 6 \<le> length password \<longrightarrow>
      fst (handleSignUp \<lparr> su_email = email, su_password = password, su_fullName = fullName,
                           su_confirmPassword = password, su_role = ''student'' \<rparr> answer)
        = [SignUp email password fullName ''student''])"
  by (auto simp: handleSignIn_def handleSignUp_def isNeuEmail_iff)

theorem admin_requires_neu_email_witness:
  "\<not> ends_with_ignoring_case ''eve@gmail.com'' ''@neu.edu.ph'' \<and>
   handleSignIn \<lparr> si_email = ''eve@gmail.com'', si_password = ''secret1'', si_role = ''admin'' \<rparr> None
     = ([], [ToastError ''Admin accounts require @neu.edu.ph email addresses'']) \<and>
   fst (handleSignUp \<lparr> su_email = ''eve@gmail.com'', su_password = ''secret1'', su_fullName = ''Eve'',
                        su_confirmPassword = ''secret1'', su_role = ''admin'' \<rparr> None) = [] \<and>
   fst (handleSignIn \<lparr> si_email = ''eve@gmail.com'', si_password = ''secret1'', si_role = ''student'' \<rparr> None)
     = [SignIn ''eve@gmail.com'' ''secret1''] \<and>
   fst (handleSignUp \<lparr> su_email = ''eve@gmail.com'', su_password = ''secret1'', su_fullName = ''Eve'',
                        su_confirmPassword = ''secret1'', su_role = ''student'' \<rparr> None)
     = [SignUp ''eve@gmail.com'' ''secret1'' ''Eve'' ''student''] \<and>
   isNeuEmail ''Terry@NEU.edu.PH''"
proof -
  have no: "\<not> isNeuEmail ''eve@gmail.com''"
    by (simp add: isNeuEmail_def endsWith_def toLowerCase_def toLowerCase_char_def)
  then have h: "\<not> ends_with_ignoring_case ''eve@gmail.com'' ''@neu.edu.ph''"
    by (simp add: isNeuEmail_iff)
  have yes: "isNeuEmail ''Terry@NEU.edu.PH''"
    by (simp add: isNeuEmail_def endsWith_def toLowerCase_def toLowerCase_char_def)
  have msg: "handleSignIn \<lparr> si_email = ''eve@gmail.com'', si_password = ''secret1'', si_role = ''admin'' \<rparr> None
     = ([], [ToastError ''Admin accounts require @neu.edu.ph email addresses''])"
    using no by (simp add: handleSignIn_def)
  from admin_requires_neu_email[of "''eve@gmail.com''" "''secret1''" None "''Eve''" "''secret1''"] h
  show ?thesis using msg yes by simp
qed

subsection \<open>Percentages in doubles\<close>

text \<open>An integer below \<open>2 ^ 53\<close> in magnitude is a double.\<close>

lemma to_double_of_int:
  assumes "\<bar>n\<bar> < 2 ^ 53"
  shows "to_double (of_int n) = of_int n"
proof (cases "n = 0")
  case True
  then show ?thesis by simp
next
  case False
  define x :: real where "x = of_int n"
  from False have x0: "x \<noteq> 0" by (simp add: x_def)
  define e where "e = \<lfloor>log 2 \<bar>x\<bar>\<rfloor>"
  define ulp :: real where "ulp = 2 powi (e - 52)"
  have ulp_pos: "0 < ulp" by (simp add: ulp_def)
  have td: "to_double x = of_int (round_half_even (x / ulp)) * ulp"
    using x0 by (simp add: to_double_def e_def ulp_def Let_def)
  have low: "2 powi e \<le> \<bar>x\<bar>" using binade(1)[OF x0] by (simp add: e_def)
  from assms have "\<bar>x\<bar> < 2 ^ 53"
    unfolding x_def by (metis of_int_abs of_int_less_iff of_int_numeral of_int_power)
  with low have lt: "(2::real) powi e < 2 powi 53" by simp
  have "e < 53" by (rule power_int_le_imp_less_exp[OF _ lt]) simp_all
  then have e52: "0 \<le> 52 - e" by simp
  have "ulp * 2 ^ nat (52 - e) = 2 powi (e - 52) * 2 powi (52 - e)"
    using e52 by (simp add: ulp_def power_int_def)
  also have "\<dots> = 1"
    by (simp add: power_int_add[symmetric])
  finally have inv: "ulp * 2 ^ nat (52 - e) = 1" .
  then have scaled: "x / ulp = of_int (n * 2 ^ nat (52 - e))"
    using ulp_pos by (simp add: field_simps x_def)
  have "of_int (round_half_even (x / ulp)) = x / ulp"
    by (simp only: scaled round_half_even_of_int)
  then have "to_double x = x / ulp * ulp" by (simp only: td)
  with ulp_pos show ?thesis by (simp add: x_def)
qed

text \<open>
  The percentage the page computes is within a relative error of \<open>2 ^ - 51\<close> of
  a hundred times the quotient: each of the two operations rounds once.
\<close>

lemma percentage_error:
  "\<bar>double_mul (double_div x y) 100 - 100 * (x / y)\<bar> \<le> \<bar>100 * (x / y)\<bar> / 2 ^ 51"
proof -
  define q where "q = x / y"
  define dq where "dq = to_double q"
  define p where "p = to_double (dq * 100)"
  define u where "u = \<bar>q\<bar> / 2 ^ 53"
  have u0: "0 \<le> u" by (simp add: u_def)
  have uq: "u \<le> \<bar>q\<bar>" by (simp add: u_def field_simps)
  have e1: "\<bar>dq - q\<bar> \<le> u" unfolding dq_def u_def by (rule to_double_error)
  with uq have dq2: "\<bar>dq\<bar> \<le> 2 * \<bar>q\<bar>" by linarith
  have "\<bar>p - dq * 100\<bar> \<le> \<bar>dq * 100\<bar> / 2 ^ 53" unfolding p_def by (rule to_double_error)
  also have "\<bar>dq * 100\<bar> / 2 ^ 53 = 100 * (\<bar>dq\<bar> / 2 ^ 53)" by (simp add: abs_mult)
  also have "\<bar>dq\<bar> / 2 ^ 53 \<le> 2 * \<bar>q\<bar> / 2 ^ 53" using dq2 by (simp add: divide_right_mono)
  also have "2 * \<bar>q\<bar> / 2 ^ 53 = 2 * u" by (simp add: u_def)
  finally have e2: "\<bar>p - dq * 100\<bar> \<le> 200 * u" by simp
  have "100 * \<bar>dq - q\<bar> = \<bar>100 * dq - 100 * q\<bar>" using abs_mult[of 100 "dq - q"] by simp
  with e1 have e1': "\<bar>100 * dq - 100 * q\<bar> \<le> 100 * u" by linarith
  from e2 e1' u0 have "\<bar>p - 100 * q\<bar> \<le> 400 * u" by linarith
  also have "400 * u = \<bar>100 * q\<bar> / 2 ^ 51" by (simp add: u_def abs_mult)
  finally show ?thesis by (simp add: p_def dq_def q_def double_mul_def double_div_def)
qed

text \<open>
  Eleven marks of twenty: the quotient 0.55 is not a double, and the product of
  its double with 100 rounds to the double just above 55.
\<close>

lemma eleven_twentieths: "double_mul (double_div 11 20) 100 = 7740561859543041 / 140737488355328"
proof -
  have q: "double_div 11 20 = 2476979795053773 / 4503599627370496"
    unfolding double_div_def
    by (simp add: to_double_eval[of "11 / 20" "-1"] round_half_even_def)
  have "to_double (61924494876344325 / 1125899906842624) = 7740561859543041 / 140737488355328"
    by (simp add: to_double_eval[of "61924494876344325 / 1125899906842624" 5] round_half_even_def)
  then show ?thesis
    unfolding double_mul_def q by simp
qed

lemma double_of_ints:
  "double_div 20 10 = 2" "double_mul 2 100 = 200"
  "double_div 10 10 = 1" "double_mul 1 100 = 100"
  "double_mul 100 11 = 1100" "double_div 1100 20 = 55"
  using to_double_of_int[of 2] to_double_of_int[of 200] to_double_of_int[of 1]
    to_double_of_int[of 100] to_double_of_int[of 1100] to_double_of_int[of 55]
  by (simp_all add: double_div_def double_mul_def)

subsection \<open>The score and the percentage of a submission\<close>

text \<open>
  A submission from a page that is not already submitting, for its current
  attempt, when every answer of the attempt has its question: the handler
  reports success and the attempt's row is completed with the sum of the marks
  of the right answers and the percentage the page computes from it.
\<close>

lemma handleSubmitExam_stores:
  assumes "\<not> pg_isSubmitting pg" and "pg_currentAttempt pg = Some a"
    and "list_all (\<lambda>j. ja_questions j \<noteq> None) (select_answers_with_questions uid d (att_id a))"
  shows "\<exists>d'. handleSubmitExam uid now d pg =
                 (d', pg\<lparr>pg_isSubmitting := True\<rparr>,
                  [ToastSuccess ''Exam submitted successfully!'', Navigate ''/dashboard'']) \<and>
              exam_attempts d' =
                map (\<lambda>r. if att_student_id r = uid \<and> att_id r = att_id a
                          then r\<lparr> att_status := ''completed'',
                                  att_score := Some (spec_score (select_answers_with_questions uid d (att_id a))),
                                  att_percentage := Some (percentage_of (pg_exam pg)
                                     (spec_score (select_answers_with_questions uid d (att_id a)))),
                                  att_completed_at := Some now \<rparr>
                          else r)
                    (exam_attempts d)"
proof -
  let ?answers = "select_answers_with_questions uid d (att_id a)"
  from score_loop_total[OF assms(3), of uid "att_id a" 0 0 d]
  obtain c' d1 where loop: "score_loop uid (att_id a) ?answers (0, 0, d) = Inr (spec_score ?answers, c', d1)"
    and frame: "exam_attempts d1 = exam_attempts d" by auto
  show ?thesis
    using assms(1,2) loop frame
    by (simp add: handleSubmitExam_def complete_attempt_def exam_attempts_policy_def)
qed

lemma quiz_answers:
  "select_answers_with_questions ''s1'' quiz_db ''a5'' =
     [\<lparr> ja_question_id = ''qa'', ja_selected_answer = ''A'',
        ja_questions = Some \<lparr> qk_correct_answer = ''A'', qk_marks = 6 \<rparr> \<rparr>,
      \<lparr> ja_question_id = ''qb'', ja_selected_answer = ''B'',
        ja_questions = Some \<lparr> qk_correct_answer = ''B'', qk_marks = 5 \<rparr> \<rparr>,
      \<lparr> ja_question_id = ''qc'', ja_selected_answer = ''D'',
        ja_questions = Some \<lparr> qk_correct_answer = ''C'', qk_marks = 9 \<rparr> \<rparr>]"
  by (simp add: select_answers_with_questions_def student_answers_policy_def quiz_db_def quiz_attempt_def)

lemma quiz_score: "spec_score (select_answers_with_questions ''s1'' quiz_db ''a5'') = 11"
  by (simp add: quiz_answers spec_score_def answer_correct_def answer_marks_def)

lemma quiz_page_state:
  "\<not> pg_isSubmitting quiz_page" "pg_currentAttempt quiz_page = Some quiz_attempt"
  "pg_exam quiz_page = Some quiz_exam" "att_id quiz_attempt = ''a5''"
  "att_student_id quiz_attempt = ''s1''" "ex_total_marks quiz_exam = 20"
  "exam_attempts quiz_db = [quiz_attempt]"
  by (simp_all add: quiz_page_def initial_page_def quiz_attempt_def quiz_exam_def quiz_db_def)

text \<open>
  The scenario of the specification: an exam of 10 marks whose one question is
  worth 10 marks with B the right answer. Selecting B gives a score of 10 and
  100 percent, selecting A a score of 0 and 0 percent.
\<close>

lemma scenario_submission:
  "map (\<lambda>r. (att_score r, att_percentage r))
       (exam_attempts (fst (handleSubmitExam ''s1'' 7 (scenario_db ''B'') scenario_page)))
     = [(Some 10, Some 100)]"
  "map (\<lambda>r. (att_score r, att_percentage r))
       (exam_attempts (fst (handleSubmitExam ''s1'' 7 (scenario_db ''A'') scenario_page)))
     = [(Some 0, Some 0)]"
proof -
  have pg: "\<not> pg_isSubmitting scenario_page" "pg_currentAttempt scenario_page = Some scenario_attempt"
    "pg_exam scenario_page = Some scenario_exam"
    by (simp_all add: scenario_page_def initial_page_def)
  have aid: "att_id scenario_attempt = ''a1''" "att_student_id scenario_attempt = ''s1''"
    by (simp_all add: scenario_attempt_def)
  have sel: "select_answers_with_questions ''s1'' (scenario_db x) ''a1'' =
     [\<lparr> ja_question_id = ''q1'', ja_selected_answer = x,
        ja_questions = Some \<lparr> qk_correct_answer = ''B'', qk_marks = 10 \<rparr> \<rparr>]" for x
    by (simp add: select_answers_with_questions_def student_answers_policy_def scenario_defs)
  have atts: "exam_attempts (scenario_db x) = [scenario_attempt]" for x
    by (simp add: scenario_db_def)
  have "percentage_of (Some scenario_exam) 10 = 100"
    by (simp add: percentage_of_def scenario_exam_def double_of_ints)
  moreover have "percentage_of (Some scenario_exam) 0 = 0"
    by (simp add: percentage_of_def scenario_exam_def double_div_def double_mul_def)
  ultimately have pct: "percentage_of (Some scenario_exam) 10 = 100" "percentage_of (Some scenario_exam) 0 = 0"
    by simp_all
  have joined: "list_all (\<lambda>j. ja_questions j \<noteq> None)
                  (select_answers_with_questions ''s1'' (scenario_db x) (att_id scenario_attempt))" for x
    by (simp add: aid sel)
  from handleSubmitExam_stores[OF pg(1) pg(2) joined[of "''B''"], of 7]
  show "map (\<lambda>r. (att_score r, att_percentage r))
       (exam_attempts (fst (handleSubmitExam ''s1'' 7 (scenario_db ''B'') scenario_page)))
     = [(Some 10, Some 100)]"
    by (auto simp: aid sel atts pg pct spec_score_def answer_correct_def answer_marks_def)
  from handleSubmitExam_stores[OF pg(1) pg(2) joined[of "''A''"], of 7]
  show "map (\<lambda>r. (att_score r, att_percentage r))
       (exam_attempts (fst (handleSubmitExam ''s1'' 7 (scenario_db ''A'') scenario_page)))
     = [(Some 0, Some 0)]"
    by (auto simp: aid sel atts pg pct spec_score_def answer_correct_def answer_marks_def)
qed

text \<open>
  Claim C2, as amended. A submission for the page's current attempt, all of
  whose answers have their questions, stores as score the sum of the marks of
  exactly the answers whose selection equals the right answer of the question.
  The percentage it stores is 0 when the total of the exam on the page is 0;
  otherwise it is the double nearest to the quotient of score and total,
  multiplied by 100 and rounded to a double again. That value is within a
  relative error of \<open>2 ^ - 51\<close> of a hundred times the score over the total,
  and need not be equal to it.
\<close>

theorem submit_score:
  assumes "\<not> pg_isSubmitting pg" and "pg_currentAttempt pg = Some a" and "pg_exam pg = Some e"
    and "list_all (\<lambda>j. ja_questions j \<noteq> None) (select_answers_with_questions uid d (att_id a))"
  shows "\<exists>d' p. handleSubmitExam uid now d pg =
                 (d', pg\<lparr>pg_isSubmitting := True\<rparr>,
                  [ToastSuccess ''Exam submitted successfully!'', Navigate ''/dashboard'']) \<and>
              exam_attempts d' =
                map (\<lambda>r. if att_student_id r = uid \<and> att_id r = att_id a
                          then r\<lparr> att_status := ''completed'',
                                  att_score := Some (spec_score (select_answers_with_questions uid d (att_id a))),
                                  att_percentage := Some p,
                                  att_completed_at := Some now \<rparr>
                          else r)
                    (exam_attempts d) \<and>
              p = (if ex_total_marks e = 0 then 0
                   else double_mul (double_div
                          (real_of_int (spec_score (select_answers_with_questions uid d (att_id a))))
                          (real_of_int (ex_total_marks e))) 100) \<and>
              \<bar>p - spec_percentage (spec_score (select_answers_with_questions uid d (att_id a)))
                                    (ex_total_marks e)\<bar>
                \<le> \<bar>spec_percentage (spec_score (select_answers_with_questions uid d (att_id a)))
                                    (ex_total_marks e)\<bar> / 2 ^ 51"
proof -
  let ?score = "spec_score (select_answers_with_questions uid d (att_id a))"
  let ?p = "percentage_of (Some e) ?score"
  from handleSubmitExam_stores[OF assms(1,2,4), of now]
  obtain d' where run: "handleSubmitExam uid now d pg =
                 (d', pg\<lparr>pg_isSubmitting := True\<rparr>,
                  [ToastSuccess ''Exam submitted successfully!'', Navigate ''/dashboard''])"
    and atts: "exam_attempts d' =
                map (\<lambda>r. if att_student_id r = uid \<and> att_id r = att_id a
                          then r\<lparr> att_status := ''completed'', att_score := Some ?score,
                                  att_percentage := Some ?p, att_completed_at := Some now \<rparr>
                          else r)
                    (exam_attempts d)"
    by (auto simp: assms(3))
  have val: "?p = (if ex_total_marks e = 0 then 0
                   else double_mul (double_div (real_of_int ?score) (real_of_int (ex_total_marks e))) 100)"
    by (simp add: percentage_of_def)
  have err: "\<bar>?p - spec_percentage ?score (ex_total_marks e)\<bar>
                \<le> \<bar>spec_percentage ?score (ex_total_marks e)\<bar> / 2 ^ 51"
  proof (cases "ex_total_marks e = 0")
    case True
    then show ?thesis by (simp add: percentage_of_def spec_percentage_def)
  next
    case False
    with percentage_error[of "real_of_int ?score" "real_of_int (ex_total_marks e)"]
    show ?thesis by (simp add: percentage_of_def spec_percentage_def)
  qed
  from run atts val err show ?thesis by blast
qed

text \<open>
  The quiz of 20 marks with 6 + 5 marks answered right: a score of 11 and the
  double just above 55 as the percentage; with a total of 0 on the page, 0.
\<close>

theorem submit_score_witness:
  "\<not> pg_isSubmitting quiz_page \<and> pg_currentAttempt quiz_page = Some quiz_attempt \<and>
   pg_exam quiz_page = Some quiz_exam \<and>
   list_all (\<lambda>j. ja_questions j \<noteq> None) (select_answers_with_questions ''s1'' quiz_db (att_id quiz_attempt)) \<and>
   map att_score (exam_attempts (fst (handleSubmitExam ''s1'' 7 quiz_db quiz_page))) = [Some 11] \<and>
   map att_percentage (exam_attempts (fst (handleSubmitExam ''s1'' 7 quiz_db quiz_page)))
     = [Some (7740561859543041 / 140737488355328)] \<and>
   \<bar>7740561859543041 / 140737488355328 - spec_percentage 11 20\<bar> \<le> \<bar>spec_percentage 11 20\<bar> / 2 ^ 51 \<and>
   \<not> pg_isSubmitting unmarked_page \<and> pg_currentAttempt unmarked_page = Some quiz_attempt \<and>
   map_option ex_total_marks (pg_exam unmarked_page) = Some 0 \<and>
   map att_score (exam_attempts (fst (handleSubmitExam ''s1'' 7 quiz_db unmarked_page))) = [Some 11] \<and>
   map att_percentage (exam_attempts (fst (handleSubmitExam ''s1'' 7 quiz_db unmarked_page))) = [Some 0]"
proof -
  note st = quiz_page_state
  have un: "\<not> pg_isSubmitting unmarked_page" "pg_currentAttempt unmarked_page = Some quiz_attempt"
    "pg_exam unmarked_page = Some (quiz_exam\<lparr>ex_total_marks := 0\<rparr>)"
    by (simp_all add: unmarked_page_def st)
  have h4: "list_all (\<lambda>j. ja_questions j \<noteq> None)
              (select_answers_with_questions ''s1'' quiz_db (att_id quiz_attempt))"
    by (simp add: st quiz_answers)
  from submit_score[OF st(1) st(2) st(3) h4, of 7]
  obtain d' p where run: "fst (handleSubmitExam ''s1'' 7 quiz_db quiz_page) = d'"
    and atts: "exam_attempts d' =
        [quiz_attempt\<lparr> att_status := ''completed'', att_score := Some 11,
                       att_percentage := Some p, att_completed_at := Some 7 \<rparr>]"
    and val: "p = double_mul (double_div 11 20) 100"
    and err: "\<bar>p - spec_percentage 11 20\<bar> \<le> \<bar>spec_percentage 11 20\<bar> / 2 ^ 51"
    by (auto simp: st quiz_score)
  from val have p: "p = 7740561859543041 / 140737488355328" by (simp only: eleven_twentieths)
  from atts have one: "map att_score (exam_attempts d') = [Some 11]"
    "map att_percentage (exam_attempts d') = [Some (7740561859543041 / 140737488355328)]"
    by (simp_all add: p)
  from submit_score[OF un(1) un(2) un(3) h4, of 7]
  obtain d0 where run0: "fst (handleSubmitExam ''s1'' 7 quiz_db unmarked_page) = d0"
    and atts0: "exam_attempts d0 =
        [quiz_attempt\<lparr> att_status := ''completed'', att_score := Some 11,
                       att_percentage := Some 0, att_completed_at := Some 7 \<rparr>]"
    by (auto simp: st quiz_score)
  from atts0 have two: "map att_score (exam_attempts d0) = [Some 11]"
    "map att_percentage (exam_attempts d0) = [Some 0]"
    by simp_all
  from h4 err one two show ?thesis by (simp add: run run0 st un p)
qed

text \<open>
  The claim as written fails in the last place of the percentage: for 11 marks
  of 20 the page stores the double just above 55, whereas a hundred times 11
  over 20 is 55, also when the product and the quotient are taken in doubles
  in that order.
\<close>

theorem percentage_rounding_counterexample:
  "map att_score (exam_attempts (fst (handleSubmitExam ''s1'' 7 quiz_db quiz_page))) = [Some 11] \<and>
   map ex_total_marks (exams quiz_db) = [20] \<and>
   map att_percentage (exam_attempts (fst (handleSubmitExam ''s1'' 7 quiz_db quiz_page)))
     = [Some (7740561859543041 / 140737488355328)] \<and>
   (7740561859543041 / 140737488355328 :: real) \<noteq> spec_percentage 11 20 \<and>
   spec_percentage 11 20 = 55 \<and>
   double_div (double_mul 100 11) 20 = 55"
proof -
  note st = quiz_page_state
  have loop: "score_loop ''s1'' ''a5'' (select_answers_with_questions ''s1'' quiz_db ''a5'') (0, 0, quiz_db)
     = Inr (11, 2, mark_answer ''s1'' (mark_answer ''s1'' (mark_answer ''s1'' quiz_db ''a5'' ''qa'' True)
                                        ''a5'' ''qb'' True) ''a5'' ''qc'' False)"
    by (simp add: quiz_answers)
  have atts: "exam_attempts (mark_answer ''s1'' (mark_answer ''s1'' (mark_answer ''s1'' quiz_db ''a5'' ''qa'' True)
                                        ''a5'' ''qb'' True) ''a5'' ''qc'' False) = [quiz_attempt]"
    by (simp add: mark_answer_frame st)
  have pct: "percentage_of (Some quiz_exam) 11 = 7740561859543041 / 140737488355328"
    using eleven_twentieths by (simp add: percentage_of_def st)
  have stored: "exam_attempts (fst (handleSubmitExam ''s1'' 7 quiz_db quiz_page)) =
      [quiz_attempt\<lparr> att_status := ''completed'', att_score := Some 11,
                     att_percentage := Some (7740561859543041 / 140737488355328),
                     att_completed_at := Some 7 \<rparr>]"
    by (simp add: handleSubmitExam_def st loop complete_attempt_def atts exam_attempts_policy_def pct)
  have spec: "spec_percentage 11 20 = 55" by (simp add: spec_percentage_def)
  have tot: "map ex_total_marks (exams quiz_db) = [20]" by (simp add: quiz_db_def quiz_exam_def)
  from stored spec tot show ?thesis by (simp add: double_of_ints)
qed

subsection \<open>The range of the percentage\<close>








subsection \<open>Resuming an attempt\<close>

lemma select_in_progress_Inr:
  assumes "select_in_progress uid d examId uid = Inr attemptData"
  shows "filter (\<lambda>a. att_student_id a = uid \<and> att_exam_id a = examId \<and> att_status a = ''in_progress'')
                (exam_attempts d) = [attemptData]"
proof -
  have "(\<lambda>a. exam_attempts_policy d uid a \<and> att_exam_id a = examId \<and>
             att_student_id a = uid \<and> att_status a = ''in_progress'')
      = (\<lambda>a. att_student_id a = uid \<and> att_exam_id a = examId \<and> att_status a = ''in_progress'')"
    by (auto simp: exam_attempts_policy_def)
  with single_Inr[OF assms[unfolded select_in_progress_def]] show ?thesis by simp
qed

lemma completing_the_one_in_progress:
  fixes xs :: "exam_attempt list"
  assumes one: "filter (\<lambda>a. att_student_id a = uid \<and> att_exam_id a = examId \<and> att_status a = ''in_progress'')
                       xs = [attemptData]"
  shows "filter (\<lambda>a. att_student_id a = uid \<and> att_exam_id a = examId \<and> att_status a = ''in_progress'')
           (map (\<lambda>r. if att_student_id r = uid \<and> att_id r = att_id attemptData
                      then r\<lparr> att_status := ''completed'', att_score := s,
                              att_percentage := p, att_completed_at := t \<rparr>
                      else r) xs) = []"
proof -
  define P where "P = (\<lambda>a :: exam_attempt. att_student_id a = uid \<and> att_exam_id a = examId \<and> att_status a = ''in_progress'')"
  define f where "f = (\<lambda>r :: exam_attempt. if att_student_id r = uid \<and> att_id r = att_id attemptData
                then r\<lparr> att_status := ''completed'', att_score := s,
                        att_percentage := p, att_completed_at := t \<rparr>
                else r)"
  from one have one': "filter P xs = [attemptData]" by (simp only: P_def)
  have nP: "\<not> P (f r)" if r: "r \<in> set xs" for r
  proof (cases "att_student_id r = uid \<and> att_id r = att_id attemptData")
    case True
    then show ?thesis by (simp add: P_def f_def)
  next
    case False
    then have fr: "f r = r" unfolding f_def by (rule if_not_P)
    show ?thesis
    proof
      assume "P (f r)"
      then have Pr: "P r" by (simp only: fr)
      with r have "r \<in> set (filter P xs)" by simp
      with one' have "r = attemptData" by simp
      with Pr False show False by (simp add: P_def)
    qed
  qed
  have "\<forall>x \<in> set (map f xs). \<not> P x"
  proof
    fix x assume "x \<in> set (map f xs)"
    then have "x \<in> f ` set xs" by (simp only: set_map)
    then obtain r where r: "r \<in> set xs" and xr: "x = f r" by (rule imageE)
    show "\<not> P x" unfolding xr by (rule nP[OF r])
  qed
  then have "filter P (map f xs) = []" by (simp only: filter_empty_conv)
  then show ?thesis by (simp only: P_def f_def)
qed

text \<open>
  Claim C6. When the page of an active exam is loaded by a student with an
  attempt in progress, that attempt becomes the current one and the remaining
  time is the duration less the whole minutes elapsed since \<open>started_at\<close>, not
  below zero (kept in seconds). When the duration has elapsed the remaining
  time is 0, and the timer effect that follows on a page not already
  submitting submits the attempt: the handler reports success, the row of the
  attempt is completed at that time, and the student has no attempt in
  progress at the exam any more. (Every answer of the attempt has its
  question, as the foreign key of the answers has it.)
\<close>

theorem resume_remaining_time:
  assumes exam: "select_exam d examId = Inr examData"
    and active: "ex_is_active examData"
    and att: "select_in_progress uid d examId uid = Inr attemptData"
    and idle: "\<not> pg_isSubmitting pg"
    and joined: "list_all (\<lambda>j. ja_questions j \<noteq> None)
                          (select_answers_with_questions uid d (att_id attemptData))"
  shows "\<exists>pg'. fetchExamData uid examId now new_id d pg = (d, pg', []) \<and>
               pg_currentAttempt pg' = Some attemptData \<and>
               pg_timeRemaining pg' =
                 60 * max 0 (ex_duration_minutes examData -
                             (now - att_started_at attemptData) div 60000) \<and>
               (ex_duration_minutes examData \<le> (now - att_started_at attemptData) div 60000 \<longrightarrow>
                  pg_timeRemaining pg' = 0 \<and>
                  (\<exists>d''. timer_effect uid now' d pg' =
                           (d'', pg'\<lparr>pg_isSubmitting := True\<rparr>,
                            [ToastSuccess ''Exam submitted successfully!'', Navigate ''/dashboard'']) \<and>
                         in_progress_count d'' uid examId = 0 \<and>
                         list_ex (\<lambda>r. att_id r = att_id attemptData \<and> att_status r = ''completed'' \<and>
                                       att_completed_at r = Some now')
                                 (exam_attempts d'')))"
proof -
  define pg' where "pg' = (resume_attempt uid now d examData attemptData (pg\<lparr>pg_exam := Some examData\<rparr>))
                            \<lparr>pg_questions := select_questions d examId, pg_loading := False\<rparr>"
  have run: "fetchExamData uid examId now new_id d pg = (d, pg', [])"
    using exam active att by (simp add: fetchExamData_def pg'_def Let_def)
  have cur: "pg_currentAttempt pg' = Some attemptData"
    and time: "pg_timeRemaining pg' =
                 60 * max 0 (ex_duration_minutes examData - (now - att_started_at attemptData) div 60000)"
    and idle': "\<not> pg_isSubmitting pg'"
    using idle by (simp_all add: pg'_def resume_attempt_def remaining_minutes_def Let_def)
  have submit: "pg_timeRemaining pg' = 0 \<and>
                  (\<exists>d''. timer_effect uid now' d pg' =
                           (d'', pg'\<lparr>pg_isSubmitting := True\<rparr>,
                            [ToastSuccess ''Exam submitted successfully!'', Navigate ''/dashboard'']) \<and>
                         in_progress_count d'' uid examId = 0 \<and>
                         list_ex (\<lambda>r. att_id r = att_id attemptData \<and> att_status r = ''completed'' \<and>
                                       att_completed_at r = Some now')
                                 (exam_attempts d''))"
    if late: "ex_duration_minutes examData \<le> (now - att_started_at attemptData) div 60000"
  proof -
    from late time have zero: "pg_timeRemaining pg' = 0" by simp
    from handleSubmitExam_stores[OF idle' cur joined, of now']
    obtain d'' where sub: "handleSubmitExam uid now' d pg' =
                 (d'', pg'\<lparr>pg_isSubmitting := True\<rparr>,
                  [ToastSuccess ''Exam submitted successfully!'', Navigate ''/dashboard''])"
      and atts: "exam_attempts d'' =
                map (\<lambda>r. if att_student_id r = uid \<and> att_id r = att_id attemptData
                          then r\<lparr> att_status := ''completed'',
                                  att_score := Some (spec_score (select_answers_with_questions uid d (att_id attemptData))),
                                  att_percentage := Some (percentage_of (pg_exam pg')
                                     (spec_score (select_answers_with_questions uid d (att_id attemptData)))),
                                  att_completed_at := Some now' \<rparr>
                          else r)
                    (exam_attempts d)"
      by blast
    have eff: "timer_effect uid now' d pg' = handleSubmitExam uid now' d pg'"
      using zero cur by (simp add: timer_effect_def)
    note one = select_in_progress_Inr[OF att]
    have none: "in_progress_count d'' uid examId = 0"
      unfolding in_progress_count_def atts
      using completing_the_one_in_progress[OF one] by simp
    from one have "attemptData \<in> set (filter (\<lambda>a. att_student_id a = uid \<and> att_exam_id a = examId \<and>
                         att_status a = ''in_progress'') (exam_attempts d))" by simp
    then have mem: "attemptData \<in> set (exam_attempts d)" and own: "att_student_id attemptData = uid"
      by simp_all
    have compl: "list_ex (\<lambda>r. att_id r = att_id attemptData \<and> att_status r = ''completed'' \<and>
                                       att_completed_at r = Some now') (exam_attempts d'')"
      unfolding list_ex_iff atts
      using mem own
      by (intro bexI[of _ "attemptData\<lparr> att_status := ''completed'',
                                  att_score := Some (spec_score (select_answers_with_questions uid d (att_id attemptData))),
                                  att_percentage := Some (percentage_of (pg_exam pg')
                                     (spec_score (select_answers_with_questions uid d (att_id attemptData)))),
                                  att_completed_at := Some now' \<rparr>"]) (auto simp: image_iff intro!: bexI[of _ attemptData])
    from zero sub eff none compl show ?thesis by simp
  qed
  from run cur time submit show ?thesis by blast
qed

text \<open>
  The exam of 30 minutes reopened 40 minutes after the start: no time remains
  and the timer effect completes the attempt.
\<close>

theorem resume_remaining_time_witness:
  "select_exam (scenario_db ''B'') ''e1'' = Inr scenario_exam \<and>
   ex_is_active scenario_exam \<and>
   select_in_progress ''s1'' (scenario_db ''B'') ''e1'' ''s1'' = Inr scenario_attempt \<and>
   \<not> pg_isSubmitting initial_page \<and>
   list_all (\<lambda>j. ja_questions j \<noteq> None)
            (select_answers_with_questions ''s1'' (scenario_db ''B'') (att_id scenario_attempt)) \<and>
   ex_duration_minutes scenario_exam = 30 \<and>
   (2400000 - att_started_at scenario_attempt) div 60000 = 40 \<and>
   pg_timeRemaining reopened_page = 0 \<and>
   pg_currentAttempt reopened_page = Some scenario_attempt \<and>
   in_progress_count (fst (timer_effect ''s1'' 2400000 (scenario_db ''B'') reopened_page)) ''s1'' ''e1'' = 0 \<and>
   list_ex (\<lambda>r. att_id r = ''a1'' \<and> att_status r = ''completed'' \<and> att_completed_at r = Some 2400000)
           (exam_attempts (fst (timer_effect ''s1'' 2400000 (scenario_db ''B'') reopened_page)))"
proof -
  note look1 = scenario_lookup(1)[of "''B''"] and look3 = scenario_lookup(3)[of "''B''"]
  have idle: "\<not> pg_isSubmitting initial_page" by (simp add: initial_page_def)
  have aid: "att_id scenario_attempt = ''a1''" by (simp add: scenario_attempt_def)
  have joined: "list_all (\<lambda>j. ja_questions j \<noteq> None)
            (select_answers_with_questions ''s1'' (scenario_db ''B'') (att_id scenario_attempt))"
    by (simp add: select_answers_with_questions_def student_answers_policy_def scenario_defs)
  have nums: "ex_duration_minutes scenario_exam = 30"
    "(2400000 - att_started_at scenario_attempt) div 60000 = 40"
    by (simp_all add: scenario_exam_def scenario_attempt_def)
  then have late: "ex_duration_minutes scenario_exam \<le> (2400000 - att_started_at scenario_attempt) div 60000"
    by simp
  from resume_remaining_time[OF look1 scenario_lookup(2) look3 idle joined,
         of 2400000 "''a2''" 2400000]
  obtain pg' where run: "fetchExamData ''s1'' ''e1'' 2400000 ''a2'' (scenario_db ''B'') initial_page
                          = (scenario_db ''B'', pg', [])"
    and cur: "pg_currentAttempt pg' = Some scenario_attempt"
    and auto_submit: "ex_duration_minutes scenario_exam \<le> (2400000 - att_started_at scenario_attempt) div 60000 \<longrightarrow>
        pg_timeRemaining pg' = 0 \<and>
        (\<exists>d''. timer_effect ''s1'' 2400000 (scenario_db ''B'') pg' =
                 (d'', pg'\<lparr>pg_isSubmitting := True\<rparr>,
                  [ToastSuccess ''Exam submitted successfully!'', Navigate ''/dashboard'']) \<and>
               in_progress_count d'' ''s1'' ''e1'' = 0 \<and>
               list_ex (\<lambda>r. att_id r = att_id scenario_attempt \<and> att_status r = ''completed'' \<and>
                             att_completed_at r = Some 2400000)
                       (exam_attempts d''))"
    by blast
  have pg': "reopened_page = pg'" by (simp add: reopened_page_def run)
  from auto_submit late obtain d'' where zero: "pg_timeRemaining pg' = 0"
    and eff: "fst (timer_effect ''s1'' 2400000 (scenario_db ''B'') pg') = d''"
    and none: "in_progress_count d'' ''s1'' ''e1'' = 0"
    and compl: "list_ex (\<lambda>r. att_id r = att_id scenario_attempt \<and> att_status r = ''completed'' \<and>
                             att_completed_at r = Some 2400000) (exam_attempts d'')"
    by auto
  from look1 scenario_lookup(2) look3 idle joined nums zero cur none compl
  show ?thesis by (simp add: pg' eff aid)
qed

subsection \<open>Answering\<close>

lemma attempt_by_id:
  assumes "distinct (map att_id xs)" and "A \<in> set xs"
  shows "list_ex (\<lambda>r. att_id r = att_id A \<and> Q r) xs \<longleftrightarrow> Q A"
proof
  assume "list_ex (\<lambda>r. att_id r = att_id A \<and> Q r) xs"
  then obtain r where r: "r \<in> set xs" "att_id r = att_id A" "Q r" by (auto simp: list_ex_iff)
  from assms r(1,2) have "r = A" by (meson distinct_map inj_onD)
  with r(3) show "Q A" by simp
next
  assume "Q A"
  with assms(2) show "list_ex (\<lambda>r. att_id r = att_id A \<and> Q r) xs" by (auto simp: list_ex_iff)
qed

lemma upsert_answer_allowed:
  assumes ok: "answer_allowed d uid aid"
  shows "\<exists>d'. upsert_answer uid d aid questionId answer = Inr d' \<and>
              exam_attempts d' = exam_attempts d \<and>
              filter (\<lambda>r. sa_attempt_id r = aid \<and> sa_question_id r = questionId) (student_answers d') \<noteq> [] \<and>
              list_all (\<lambda>r. sa_selected_answer r = answer)
                (filter (\<lambda>r. sa_attempt_id r = aid \<and> sa_question_id r = questionId) (student_answers d'))"
proof -
  let ?same = "\<lambda>r. sa_attempt_id r = aid \<and> sa_question_id r = questionId"
  let ?upd = "\<lambda>r. if ?same r then r\<lparr>sa_selected_answer := answer\<rparr> else r"
  have pol: "student_answers_policy d uid \<lparr> sa_attempt_id = aid, sa_question_id = questionId,
                  sa_selected_answer = answer, sa_is_correct = None \<rparr>"
    using ok by (auto simp: student_answers_policy_def answer_allowed_def list_ex_iff)
  show ?thesis
  proof (cases "list_ex ?same (student_answers d)")
    case True
    define d' where "d' = d\<lparr>student_answers := map ?upd (student_answers d)\<rparr>"
    have up: "upsert_answer uid d aid questionId answer = Inr d'"
      using True pol ok by (simp add: upsert_answer_def Let_def d'_def)
    have atts: "exam_attempts d' = exam_attempts d" by (simp add: d'_def)
    have keep: "filter ?same (map ?upd xs) = map (\<lambda>r. r\<lparr>sa_selected_answer := answer\<rparr>) (filter ?same xs)" for xs
      by (induction xs) auto
    from True have ne0: "filter ?same (student_answers d) \<noteq> []"
      by (auto simp: list_ex_iff filter_empty_conv)
    have ne: "filter ?same (student_answers d') \<noteq> []"
      using ne0 by (simp add: d'_def keep)
    have all: "list_all (\<lambda>r. sa_selected_answer r = answer) (filter ?same (student_answers d'))"
      by (simp add: d'_def keep list_all_iff)
    from up atts ne all show ?thesis by blast
  next
    case False
    define d' where "d' = d\<lparr>student_answers := student_answers d @
        [\<lparr> sa_attempt_id = aid, sa_question_id = questionId,
           sa_selected_answer = answer, sa_is_correct = None \<rparr>]\<rparr>"
    have up: "upsert_answer uid d aid questionId answer = Inr d'"
      using False pol ok by (simp add: upsert_answer_def Let_def d'_def)
    have atts: "exam_attempts d' = exam_attempts d" by (simp add: d'_def)
    from False have none: "filter ?same (student_answers d) = []"
      by (auto simp: list_ex_iff filter_empty_conv)
    have ne: "filter ?same (student_answers d') \<noteq> []"
      by (simp add: d'_def)
    have all: "list_all (\<lambda>r. sa_selected_answer r = answer) (filter ?same (student_answers d'))"
      using none by (simp add: d'_def)
    from up atts ne all show ?thesis by blast
  qed
qed

text \<open>
  Claim C4. For the attempt row A of the page's current attempt (attempt ids
  being unique): when A is in progress and the student's own, selecting an
  answer is accepted, and afterwards the store holds an answer for (attempt,
  question), every such row carrying the selection; when A is completed, the
  upsert is refused, the handler reports the failure and the store is left as
  it was.
\<close>

theorem answer_only_while_in_progress:
  assumes cur: "pg_currentAttempt pg = Some a"
    and ids: "distinct (map att_id (exam_attempts d))"
    and row: "A \<in> set (exam_attempts d)" and same: "att_id A = att_id a"
  shows "(att_status A = ''in_progress'' \<and> att_student_id A = uid \<longrightarrow>
          (\<exists>d'. handleAnswerSelect uid questionId answer d pg =
                  (d', pg\<lparr>pg_answers := (pg_answers pg)(questionId \<mapsto> answer)\<rparr>, []) \<and>
                filter (\<lambda>r. sa_attempt_id r = att_id A \<and> sa_question_id r = questionId)
                       (student_answers d') \<noteq> [] \<and>
                list_all (\<lambda>r. sa_selected_answer r = answer)
                  (filter (\<lambda>r. sa_attempt_id r = att_id A \<and> sa_question_id r = questionId)
                          (student_answers d')))) \<and>
         (att_status A = ''completed'' \<longrightarrow>
          handleAnswerSelect uid questionId answer d pg =
            (d, pg\<lparr>pg_answers := (pg_answers pg)(questionId \<mapsto> answer)\<rparr>,
             [ConsoleError ''Error saving answer:'', ToastError ''Failed to save answer'']))"
proof -
  have allowed: "answer_allowed d uid (att_id A) \<longleftrightarrow>
                   att_student_id A = uid \<and> att_status A = ''in_progress''"
    unfolding answer_allowed_def
    using attempt_by_id[OF ids row, of "\<lambda>r. att_student_id r = uid \<and> att_status r = ''in_progress''"]
    by simp
  have accept: "\<exists>d'. handleAnswerSelect uid questionId answer d pg =
                  (d', pg\<lparr>pg_answers := (pg_answers pg)(questionId \<mapsto> answer)\<rparr>, []) \<and>
                filter (\<lambda>r. sa_attempt_id r = att_id A \<and> sa_question_id r = questionId)
                       (student_answers d') \<noteq> [] \<and>
                list_all (\<lambda>r. sa_selected_answer r = answer)
                  (filter (\<lambda>r. sa_attempt_id r = att_id A \<and> sa_question_id r = questionId)
                          (student_answers d'))"
    if "att_status A = ''in_progress'' \<and> att_student_id A = uid"
  proof -
    from that allowed have ok: "answer_allowed d uid (att_id A)" by simp
    from upsert_answer_allowed[OF ok, of questionId answer]
    obtain d' where up: "upsert_answer uid d (att_id A) questionId answer = Inr d'"
      and ne: "filter (\<lambda>r. sa_attempt_id r = att_id A \<and> sa_question_id r = questionId) (student_answers d') \<noteq> []"
      and all: "list_all (\<lambda>r. sa_selected_answer r = answer)
                (filter (\<lambda>r. sa_attempt_id r = att_id A \<and> sa_question_id r = questionId) (student_answers d'))"
      by blast
    from cur up have "handleAnswerSelect uid questionId answer d pg =
                  (d', pg\<lparr>pg_answers := (pg_answers pg)(questionId \<mapsto> answer)\<rparr>, [])"
      by (simp add: handleAnswerSelect_def same[symmetric])
    with ne all show ?thesis by blast
  qed
  have reject: "handleAnswerSelect uid questionId answer d pg =
            (d, pg\<lparr>pg_answers := (pg_answers pg)(questionId \<mapsto> answer)\<rparr>,
             [ConsoleError ''Error saving answer:'', ToastError ''Failed to save answer''])"
    if "att_status A = ''completed''"
  proof -
    from that allowed have "\<not> answer_allowed d uid (att_id A)" by simp
    with cur show ?thesis
      by (simp add: handleAnswerSelect_def upsert_answer_def Let_def same[symmetric])
  qed
  from accept reject show ?thesis by blast
qed

lemma scenario_attempt_fields:
  "att_id scenario_attempt = ''a1''" "att_student_id scenario_attempt = ''s1''"
  "att_status scenario_attempt = ''in_progress''"
  by (simp_all add: scenario_attempt_def)

text \<open>
  An answer for the attempt in progress is stored; the same selection after
  the attempt has been submitted is refused and changes nothing.
\<close>

theorem answer_only_while_in_progress_witness:
  "pg_currentAttempt scenario_page = Some scenario_attempt \<and>
   distinct (map att_id (exam_attempts started_db)) \<and>
   map att_status (exam_attempts started_db) = [''in_progress''] \<and>
   student_answers (fst (handleAnswerSelect ''s1'' ''q1'' ''C'' started_db scenario_page)) =
     [\<lparr> sa_attempt_id = ''a1'', sa_question_id = ''q1'', sa_selected_answer = ''C'',
        sa_is_correct = None \<rparr>] \<and>
   snd (snd (handleAnswerSelect ''s1'' ''q1'' ''C'' started_db scenario_page)) = [] \<and>
   distinct (map att_id (exam_attempts submitted_db)) \<and>
   map att_status (exam_attempts submitted_db) = [''completed''] \<and>
   fst (handleAnswerSelect ''s1'' ''q1'' ''C'' submitted_db scenario_page) = submitted_db \<and>
   snd (snd (handleAnswerSelect ''s1'' ''q1'' ''C'' submitted_db scenario_page)) =
     [ConsoleError ''Error saving answer:'', ToastError ''Failed to save answer'']"
proof -
  let ?A = "scenario_attempt\<lparr>att_started_at := 5\<rparr>"
  let ?B = "scenario_attempt\<lparr> att_status := ''completed'', att_score := Some 0,
                         att_percentage := Some 0, att_completed_at := Some 9 \<rparr>"
  have cur: "pg_currentAttempt scenario_page = Some scenario_attempt"
    by (simp add: scenario_page_def initial_page_def)
  have sa: "exam_attempts started_db = [?A]" "student_answers started_db = []"
    by (simp_all add: started_db_def fresh_db_def)
  have sb: "exam_attempts submitted_db = [?B]"
    by (simp add: submitted_db_def fresh_db_def)
  have idsA: "distinct (map att_id (exam_attempts started_db))" by (simp add: sa)
  have idsB: "distinct (map att_id (exam_attempts submitted_db))" by (simp add: sb)
  have rowA: "?A \<in> set (exam_attempts started_db)" by (simp add: sa)
  have rowB: "?B \<in> set (exam_attempts submitted_db)" by (simp add: sb)
  from answer_only_while_in_progress[OF cur idsA rowA, of "''s1''" "''q1''" "''C''"]
  have okA: "snd (snd (handleAnswerSelect ''s1'' ''q1'' ''C'' started_db scenario_page)) = []"
    by (auto simp: scenario_attempt_fields)
  have stored: "student_answers (fst (handleAnswerSelect ''s1'' ''q1'' ''C'' started_db scenario_page)) =
     [\<lparr> sa_attempt_id = ''a1'', sa_question_id = ''q1'', sa_selected_answer = ''C'',
        sa_is_correct = None \<rparr>]"
    by (simp add: handleAnswerSelect_def upsert_answer_def student_answers_policy_def answer_allowed_def
        Let_def cur sa scenario_attempt_fields)
  from answer_only_while_in_progress[OF cur idsB rowB, of "''s1''" "''q1''" "''C''"]
  have rej: "handleAnswerSelect ''s1'' ''q1'' ''C'' submitted_db scenario_page =
            (submitted_db, scenario_page\<lparr>pg_answers := (pg_answers scenario_page)(''q1'' \<mapsto> ''C'')\<rparr>,
             [ConsoleError ''Error saving answer:'', ToastError ''Failed to save answer''])"
    by (simp add: scenario_attempt_fields)
  from cur idsA idsB okA stored rej show ?thesis
    by (simp add: sa sb scenario_attempt_fields)
qed

end
